theory Spec2Isabelle
  imports Main
begin

section \<open>Data model\<close>

subsection \<open>Identifiers\<close>

text \<open>
  An \<open>ObjectId\<close> is given by its \<open>toString()\<close>: 24 hexadecimal digits in lower case. Two
  ObjectIds are equal exactly when these strings are. A \<open>Date\<close> is its millisecond
  timestamp.
\<close>

datatype oid = ObjectId string

fun toHexString :: "oid \<Rightarrow> string" where
  "toHexString (ObjectId h) = h"

type_synonym date = nat

text \<open>
  An id that arrives in a request body is a string. A query and a schema path of type
  ObjectId cast it: 24 hexadecimal digits are accepted in either case and denote the
  ObjectId with the lower-case digits; any other string raises a \<open>CastError\<close>. The
  validators of this repository accept the same strings (\<open>/^[0-9a-fA-F]{24}$/\<close>).
\<close>

definition is_hex_digit :: "char \<Rightarrow> bool" where
  "is_hex_digit c \<longleftrightarrow> c \<in> set ''0123456789abcdefABCDEF''"

definition lower_hex :: "char \<Rightarrow> char" where
  "lower_hex c =
     (if c = CHR ''A'' then CHR ''a'' else if c = CHR ''B'' then CHR ''b''
      else if c = CHR ''C'' then CHR ''c'' else if c = CHR ''D'' then CHR ''d''
      else if c = CHR ''E'' then CHR ''e'' else if c = CHR ''F'' then CHR ''f''
      else c)"

definition castObjectId :: "string \<Rightarrow> oid option" where
  "castObjectId r =
     (if length r = 24 \<and> list_all is_hex_digit r then Some (ObjectId (map lower_hex r))
      else None)"

text \<open>
  The argument \<open>userId\<close> of \<open>hasAccess\<close> is an ObjectId (\<open>req.user._id\<close>) or a string
  of a request body; the method reads its \<open>toString()\<close>.
\<close>

datatype id_value = IdObject oid | IdString string

fun id_toString :: "id_value \<Rightarrow> string" where
  "id_toString (IdObject i) = toHexString i"
| "id_toString (IdString r) = r"

subsection \<open>Errors\<close>

text \<open>
  \<open>ApiError(message, statusCode)\<close> as the controllers throw it; the validation error of a
  schema and the cast error of an id; and the \<open>TypeError\<close> of reading a property of a
  reference that is null. \<open>statusCode\<close> is the status the error handler answers with.
\<close>

datatype error = ApiError string nat | ValidationError | CastError | TypeError

fun statusCode :: "error \<Rightarrow> nat" where
  "statusCode (ApiError message code) = code"
| "statusCode ValidationError = 400"
| "statusCode CastError = 400"
| "statusCode TypeError = 500"

text \<open>HTTP names status 403 Forbidden; the controllers throw it where access is denied.\<close>

definition is_forbidden :: "error \<Rightarrow> bool" where
  "is_forbidden e \<longleftrightarrow> statusCode e = 403"

subsection \<open>Project (models/Project.js)\<close>

datatype member_role = VIEWER | CONTRIBUTOR | MANAGER

datatype project_status = PLANNING | ACTIVE | ON_HOLD | COMPLETED | ARCHIVED

datatype project_priority = P_LOW | P_MEDIUM | P_HIGH | P_CRITICAL

text \<open>The stored project: its reference paths hold ObjectIds.\<close>

record member =
  m_user :: oid
  m_role :: member_role
  m_joinedAt :: date

record project =
  p_id :: oid
  p_name :: string
  p_description :: string
  p_createdBy :: oid
  p_isActive :: bool
  p_status :: project_status
  p_priority :: project_priority
  p_startDate :: date
  p_endDate :: "date option"
  p_members :: "member list"

text \<open>
  A project document in memory, as far as \<open>hasAccess\<close> reads it. A reference path holds
  the ObjectId as stored, or, after \<open>populate\<close>, the referenced document (given here by its
  \<open>toString()\<close>, the rendering of the document) or null when the reference does not resolve.
\<close>

datatype user_path = Ref oid | Populated string | Null

fun path_toString :: "user_path \<Rightarrow> error + string" where
  "path_toString (Ref i) = Inr (toHexString i)"
| "path_toString (Populated rendered) = Inr rendered"
| "path_toString Null = Inl TypeError"

record member_doc =
  md_user :: user_path
  md_role :: member_role

record project_doc =
  pd_createdBy :: user_path
  pd_members :: "member_doc list"

text \<open>A project as a query returns it, with no path populated.\<close>

definition unpopulated :: "project \<Rightarrow> project_doc" where
  "unpopulated p =
     \<lparr>pd_createdBy = Ref (p_createdBy p),
      pd_members = map (\<lambda>m. \<lparr>md_user = Ref (m_user m), md_role = m_role m\<rparr>) (p_members p)\<rparr>"

text \<open>The table \<open>roleHierarchy = { VIEWER: 1, CONTRIBUTOR: 2, MANAGER: 3 }\<close>.\<close>

fun roleHierarchy :: "member_role \<Rightarrow> nat" where
  "roleHierarchy VIEWER = 1"
| "roleHierarchy CONTRIBUTOR = 2"
| "roleHierarchy MANAGER = 3"

text \<open>
  \<open>this.members.find(m => m.user.toString() === userId.toString())\<close>: the first entry
  whose user renders as the given string; reading an entry whose user is null throws.
\<close>

fun find_member :: "string \<Rightarrow> member_doc list \<Rightarrow> error + member_doc option" where
  "find_member uid [] = Inr None"
| "find_member uid (m # ms) =
     (case path_toString (md_user m) of
        Inl e \<Rightarrow> Inl e
      | Inr rendered \<Rightarrow> if rendered = uid then Inr (Some m) else find_member uid ms)"

text \<open>
  \<open>projectSchema.methods.hasAccess(userId, requiredRole = 'VIEWER')\<close>. The method reads
  \<open>this.createdBy\<close> and \<open>this.members\<close>, compares strings and returns a boolean or
  throws; it assigns nothing, so it is a function of the document, the id and the level.
\<close>

definition hasAccess :: "project_doc \<Rightarrow> id_value \<Rightarrow> member_role \<Rightarrow> error + bool" where
  "hasAccess this userId requiredRole =
     (case path_toString (pd_createdBy this) of
        Inl e \<Rightarrow> Inl e
      | Inr creator \<Rightarrow>
          if creator = id_toString userId then Inr True
          else (case find_member (id_toString userId) (pd_members this) of
                  Inl e \<Rightarrow> Inl e
                | Inr None \<Rightarrow> Inr False
                | Inr (Some member) \<Rightarrow>
                    Inr (roleHierarchy (md_role member) \<ge> roleHierarchy requiredRole)))"

subsection \<open>User\<close>

datatype user_role = USER | ADMIN

text \<open>
  Modelled from the spec: the User schema (models/User.js) is not under src/. The spec gives
  a user a role in \<open>{USER, ADMIN}\<close> and an \<open>isActive\<close> flag; the controllers read
  \<open>_id\<close>, \<open>name\<close>, \<open>email\<close>, \<open>role\<close> and \<open>isActive\<close>.
\<close>

record user =
  u_id :: oid
  u_name :: string
  u_email :: string
  u_role :: user_role
  u_isActive :: bool

text \<open>A user reference populated with \<open>select: 'name email'\<close>.\<close>

record user_ref =
  r_id :: oid
  r_name :: string
  r_email :: string

definition select_name_email :: "user \<Rightarrow> user_ref" where
  "select_name_email u = \<lparr>r_id = u_id u, r_name = u_name u, r_email = u_email u\<rparr>"

text \<open>
  The test that every caller of \<open>hasAccess\<close> makes:
  \<open>req.user.role !== 'ADMIN' && !project.hasAccess(...)\<close>. An administrator passes
  without the call.
\<close>

definition denied :: "user \<Rightarrow> (error + bool) \<Rightarrow> error + bool" where
  "denied reqUser access =
     (if u_role reqUser = ADMIN then Inr False
      else (case access of Inl e \<Rightarrow> Inl e | Inr granted \<Rightarrow> Inr (\<not> granted)))"

subsection \<open>Ticket (models/Ticket.js)\<close>

datatype ticket_status = OPEN | IN_PROGRESS | RESOLVED | CLOSED

datatype ticket_priority = LOW | MEDIUM | HIGH

datatype ticket_type = BUG | FEATURE | ENHANCEMENT | TASK

record history_entry =
  h_status :: ticket_status
  h_changedBy :: oid
  h_changedAt :: date
  h_comment :: "string option"

record attachment =
  a_fileName :: string
  a_fileUrl :: string
  a_uploadedBy :: oid
  a_uploadedAt :: date

text \<open>
  The paths the schema declares, with \<open>createdAt\<close> and \<open>updatedAt\<close> of the schema option
  \<open>timestamps: true\<close>. Hours are \<open>Number\<close>s in the source and integers here.
\<close>

record ticket =
  t_id :: oid
  t_title :: string
  t_description :: string
  t_status :: ticket_status
  t_priority :: ticket_priority
  t_type :: ticket_type
  t_assignedTo :: "oid option"
  t_project :: oid
  t_createdBy :: oid
  t_dueDate :: "date option"
  t_estimatedHours :: "int option"
  t_actualHours :: int
  t_tags :: "string list"
  t_statusHistory :: "history_entry list"
  t_attachments :: "attachment list"
  t_resolvedAt :: "date option"
  t_closedAt :: "date option"
  t_createdAt :: date
  t_updatedAt :: date

text \<open>
  A ticket document in memory: the stored paths, \<open>isNew\<close>, whether any path is marked
  modified (\<open>isModified()\<close>), whether the path \<open>status\<close> is (\<open>isModified('status')\<close>),
  and the property \<open>modifiedBy\<close> that the controllers put on the document object (it is no
  schema path, so it is never stored).
\<close>

record ticket_doc =
  d_fields :: ticket
  d_isNew :: bool
  d_modified :: bool
  d_statusModified :: bool
  d_modifiedBy :: "oid option"

definition loaded :: "ticket \<Rightarrow> ticket_doc" where
  "loaded t = \<lparr>d_fields = t, d_isNew = False, d_modified = False, d_statusModified = False,
               d_modifiedBy = None\<rparr>"

text \<open>
  Assigning \<open>ticket.status = v\<close>: the document marks a path modified only when the new value
  differs from the current one.
\<close>

definition set_status :: "ticket_status \<Rightarrow> ticket_doc \<Rightarrow> ticket_doc" where
  "set_status v this =
     (if t_status (d_fields this) = v then this
      else this\<lparr>d_fields := (d_fields this)\<lparr>t_status := v\<rparr>, d_modified := True,
                d_statusModified := True\<rparr>)"

text \<open>
  The hook of the \<open>timestamps\<close> option, which runs on \<open>save\<close>: a new document gets both
  timestamps, a modified one a new \<open>updatedAt\<close>.
\<close>

definition stamp :: "date \<Rightarrow> ticket_doc \<Rightarrow> ticket_doc" where
  "stamp now this =
     (if d_isNew this
      then this\<lparr>d_fields := (d_fields this)\<lparr>t_createdAt := now, t_updatedAt := now\<rparr>\<rparr>
      else if d_modified this
      then this\<lparr>d_fields := (d_fields this)\<lparr>t_updatedAt := now\<rparr>\<rparr>
      else this)"

text \<open>The first block of \<open>ticketSchema.pre('save')\<close>: track status history.\<close>

definition track_status_history :: "date \<Rightarrow> ticket_doc \<Rightarrow> ticket_doc" where
  "track_status_history now this =
     (if d_statusModified this \<and> \<not> d_isNew this then
        this\<lparr>d_fields := (d_fields this)\<lparr>t_statusHistory :=
          t_statusHistory (d_fields this) @
            [\<lparr>h_status = t_status (d_fields this),
              h_changedBy = (case d_modifiedBy this of
                               Some u \<Rightarrow> u
                             | None \<Rightarrow> t_createdBy (d_fields this)),
              h_changedAt = now,
              h_comment = None\<rparr>]\<rparr>\<rparr>
      else this)"

text \<open>The second block: set and clear the resolved/closed timestamps, one \<open>if\<close> each.\<close>

definition set_timestamps :: "date \<Rightarrow> ticket \<Rightarrow> ticket" where
  "set_timestamps now t =
     (let t1 = (if t_status t = RESOLVED \<and> t_resolvedAt t = None
                then t\<lparr>t_resolvedAt := Some now\<rparr> else t);
          t2 = (if t_status t1 = CLOSED \<and> t_closedAt t1 = None
                then t1\<lparr>t_closedAt := Some now\<rparr> else t1);
          t3 = (if t_status t2 \<noteq> RESOLVED \<and> t_status t2 \<noteq> CLOSED
                then t2\<lparr>t_resolvedAt := None\<rparr> else t2);
          t4 = (if t_status t3 \<noteq> CLOSED
                then t3\<lparr>t_closedAt := None\<rparr> else t3)
      in t4)"

definition pre_save :: "date \<Rightarrow> ticket_doc \<Rightarrow> ticket_doc" where
  "pre_save now this =
     (let this1 = track_status_history now this
      in if d_statusModified this1
         then this1\<lparr>d_fields := set_timestamps now (d_fields this1)\<rparr>
         else this1)"

text \<open>
  The validators the schema declares (required strings, \<open>maxlength\<close>, \<open>min\<close>, \<open>max\<close>);
  enum membership holds by typing. Validation runs on \<open>save\<close> before the hooks above and
  before the write. Every write validates, so a stored ticket satisfies the schema, and on
  such a ticket validating the document and validating its assigned paths agree.
\<close>

definition ticket_valid :: "ticket \<Rightarrow> bool" where
  "ticket_valid t \<longleftrightarrow>
     t_title t \<noteq> [] \<and> length (t_title t) \<le> 200 \<and>
     t_description t \<noteq> [] \<and> length (t_description t) \<le> 2000 \<and>
     (case t_estimatedHours t of None \<Rightarrow> True | Some h \<Rightarrow> 0 \<le> h \<and> h \<le> 1000) \<and>
     0 \<le> t_actualHours t \<and> t_actualHours t \<le> 1000 \<and>
     list_all (\<lambda>tag. length tag \<le> 30) (t_tags t)"

subsection \<open>The store and notification requests\<close>

text \<open>The three collections, each a list of documents in insertion order.\<close>

record store =
  users :: "user list"
  projects :: "project list"
  tickets :: "ticket list"

definition findById :: "('a \<Rightarrow> oid) \<Rightarrow> oid \<Rightarrow> 'a list \<Rightarrow> 'a option" where
  "findById key i docs = find (\<lambda>d. key d = i) docs"

text \<open>Saving an existing document replaces the stored document with its \<open>_id\<close>.\<close>

definition saveDoc :: "('a \<Rightarrow> oid) \<Rightarrow> 'a \<Rightarrow> 'a list \<Rightarrow> 'a list" where
  "saveDoc key d docs = map (\<lambda>x. if key x = key d then d else x) docs"

definition findByIdAndDelete :: "('a \<Rightarrow> oid) \<Rightarrow> oid \<Rightarrow> 'a list \<Rightarrow> 'a list" where
  "findByIdAndDelete key i docs = filter (\<lambda>x. key x \<noteq> i) docs"

definition populateUser :: "store \<Rightarrow> oid option \<Rightarrow> user option" where
  "populateUser s r = (case r of None \<Rightarrow> None | Some i \<Rightarrow> findById u_id i (users s))"

text \<open>
  A request handed to the email service: the kind, the ticket or project, the recipients.
\<close>

datatype notification =
    TicketAssignmentEmail oid string
  | TicketStatusUpdateEmail oid "string list"
  | ProjectInvitationEmail oid string

text \<open>
  The recipients of \<open>EmailService.sendTicketStatusUpdateEmail\<close>, from the populated
  \<open>assignedTo\<close> and \<open>createdBy\<close> of the ticket. \<open>ticket.assignedTo?.email\<close> is
  \<open>undefined\<close> when nobody is assigned, which no address equals.
\<close>

definition sendTicketStatusUpdateEmail :: "user_ref option \<Rightarrow> user_ref option \<Rightarrow> string list" where
  "sendTicketStatusUpdateEmail assignedTo createdBy =
     (let recipients = (case assignedTo of None \<Rightarrow> [] | Some a \<Rightarrow> [r_email a])
      in case createdBy of
           None \<Rightarrow> recipients
         | Some c \<Rightarrow>
             if Some (r_email c) \<noteq> map_option r_email assignedTo
             then recipients @ [r_email c] else recipients)"

text \<open>
  \<open>Document.prototype.toString\<close> is library code: it renders the loaded paths of the
  document. The renderings are parameters: of a user populated whole, of a user populated
  with \<open>select: 'name email'\<close>, and of a user populated with \<open>'name email role'\<close>.
\<close>

record rendering =
  docToString :: "user \<Rightarrow> string"
  refToString :: "user_ref \<Rightarrow> string"
  roleRefToString :: "user \<Rightarrow> string"

section \<open>Ticket controller (controllers/ticketController.js)\<close>

text \<open>
  A controller takes the authenticated user \<open>req.user\<close>, the request's parameters and
  the store, and returns the store after the writes it made together with the error it threw
  or its response. \<open>new Date()\<close> and the \<open>_id\<close> of a created document are arguments. An
  id of the route (\<open>req.params\<close>) is validated by the route and only ever cast by a query,
  so it is an ObjectId here; an id of the body that the controller also compares as a string
  is a string.
\<close>

text \<open>
  The body of a ticket creation, after the validation middleware. \<open>assignedTo\<close> is
  \<open>None\<close> when it is absent or falsy.
\<close>

record ticket_input =
  in_title :: string
  in_description :: string
  in_priority :: "ticket_priority option"
  in_type :: "ticket_type option"
  in_project :: oid
  in_assignedTo :: "string option"
  in_dueDate :: "date option"
  in_estimatedHours :: "int option"
  in_tags :: "string list option"

text \<open>
  The body of a ticket update: \<open>None\<close> is a field that is \<open>undefined\<close>. For
  \<open>assignedTo\<close>, \<open>Some None\<close> is \<open>null\<close> (unassign) and \<open>Some (Some r)\<close> the string
  \<open>r\<close>, which the validation middleware lets through when it is empty or has 24
  hexadecimal digits. Other string values are taken as the schema's setters store them.
\<close>

record ticket_updates =
  upd_title :: "string option"
  upd_description :: "string option"
  upd_status :: "ticket_status option"
  upd_priority :: "ticket_priority option"
  upd_type :: "ticket_type option"
  upd_assignedTo :: "string option option"
  upd_dueDate :: "date option"
  upd_estimatedHours :: "int option"
  upd_actualHours :: "int option"
  upd_tags :: "string list option"

text \<open>
  \<open>document.save()\<close>: validate, run the hook of the timestamps option and the pre-save
  hook, write.
\<close>

definition save_ticket :: "date \<Rightarrow> ticket_doc \<Rightarrow> store \<Rightarrow> store \<times> (error + ticket)" where
  "save_ticket now this s =
     (if \<not> ticket_valid (d_fields this) then (s, Inl ValidationError)
      else
        let saved = d_fields (pre_save now (stamp now this))
        in (s\<lparr>tickets := (if d_isNew this then tickets s @ [saved]
                           else saveDoc t_id saved (tickets s))\<rparr>,
            Inr saved))"

text \<open>
  The check of an assignee named in a body, as \<open>createTicket\<close>, \<open>updateTicket\<close> and
  \<open>assignTicket\<close> write it out, each with its two messages: the query casts the string and
  looks for the active user; \<open>hasAccess\<close> is given the string of the body.
\<close>

definition verifyAssignee ::
  "string \<Rightarrow> string \<Rightarrow> user \<Rightarrow> project \<Rightarrow> string \<Rightarrow> store \<Rightarrow> error + user" where
  "verifyAssignee notFound noAccess reqUser project a s =
     (case castObjectId a of
        None \<Rightarrow> Inl CastError
      | Some i \<Rightarrow>
          (case find (\<lambda>u. u_id u = i \<and> u_isActive u) (users s) of
             None \<Rightarrow> Inl (ApiError notFound 404)
           | Some assignedUser \<Rightarrow>
               (case denied reqUser (hasAccess (unpopulated project) (IdString a) VIEWER) of
                  Inl e \<Rightarrow> Inl e
                | Inr d \<Rightarrow> if d then Inl (ApiError noAccess 403) else Inr assignedUser)))"

definition createTicket ::
  "oid \<Rightarrow> date \<Rightarrow> user \<Rightarrow> ticket_input \<Rightarrow> store \<Rightarrow> store \<times> (error + ticket \<times> notification list)" where
  "createTicket newId now reqUser body s =
     (case find (\<lambda>p. p_id p = in_project body \<and> p_isActive p) (projects s) of
        None \<Rightarrow> (s, Inl (ApiError ''Project not found'' 404))
      | Some projectDoc \<Rightarrow>
          (case denied reqUser
                  (hasAccess (unpopulated projectDoc) (IdObject (u_id reqUser)) CONTRIBUTOR) of
             Inl e \<Rightarrow> (s, Inl e)
           | Inr d \<Rightarrow>
               if d then (s, Inl (ApiError ''Access denied to this project'' 403))
               else
                 (case (case in_assignedTo body of
                          None \<Rightarrow> Inr None
                        | Some a \<Rightarrow>
                            (case verifyAssignee ''Assigned user not found or inactive''
                                    ''Assigned user does not have access to this project''
                                    reqUser projectDoc a s of
                               Inl e \<Rightarrow> Inl e
                             | Inr found \<Rightarrow> Inr (Some found))) of
                    Inl e \<Rightarrow> (s, Inl e)
                  | Inr assignedUser \<Rightarrow>
                      let ticket =
                            \<lparr>t_id = newId,
                             t_title = in_title body,
                             t_description = in_description body,
                             t_status = OPEN,
                             t_priority = (case in_priority body of None \<Rightarrow> MEDIUM | Some p \<Rightarrow> p),
                             t_type = (case in_type body of None \<Rightarrow> BUG | Some ty \<Rightarrow> ty),
                             t_assignedTo = Option.bind (in_assignedTo body) castObjectId,
                             t_project = in_project body,
                             t_createdBy = u_id reqUser,
                             t_dueDate = in_dueDate body,
                             t_estimatedHours = in_estimatedHours body,
                             t_actualHours = 0,
                             t_tags = (case in_tags body of None \<Rightarrow> [] | Some ts \<Rightarrow> ts),
                             t_statusHistory =
                               [\<lparr>h_status = OPEN, h_changedBy = u_id reqUser, h_changedAt = now,
                                 h_comment = Some ''Ticket created''\<rparr>],
                             t_attachments = [],
                             t_resolvedAt = None,
                             t_closedAt = None,
                             t_createdAt = now,
                             t_updatedAt = now\<rparr>
                      in (case save_ticket now
                                \<lparr>d_fields = ticket, d_isNew = True, d_modified = False,
                                 d_statusModified = False, d_modifiedBy = None\<rparr> s of
                            (s', Inl e) \<Rightarrow> (s', Inl e)
                          | (s', Inr created) \<Rightarrow>
                              (s', Inr (created,
                                 (case assignedUser of
                                    None \<Rightarrow> []
                                  | Some au \<Rightarrow>
                                      if in_assignedTo body \<noteq> Some (toHexString (u_id reqUser))
                                      then [TicketAssignmentEmail (t_id created) (u_email au)]
                                      else [])))))))"

text \<open>
  Assigning a path of the document, \<open>ticket[field] = value\<close>: the value is stored, and the
  document is marked modified when it differs from the current one.
\<close>

definition set_path :: "(ticket \<Rightarrow> ticket) \<Rightarrow> ticket_doc \<Rightarrow> ticket_doc" where
  "set_path put this =
     (if put (d_fields this) = d_fields this then this
      else this\<lparr>d_fields := put (d_fields this), d_modified := True\<rparr>)"

text \<open>
  One round of the loop over \<open>allowedUpdates\<close> in \<open>updateTicket\<close>:
  \<open>if (updates[field] !== undefined) ticket[field] = updates[field]\<close>.
\<close>

definition assign :: "'v option \<Rightarrow> ('v \<Rightarrow> ticket \<Rightarrow> ticket) \<Rightarrow> ticket_doc \<Rightarrow> ticket_doc" where
  "assign v put this = (case v of None \<Rightarrow> this | Some x \<Rightarrow> set_path (put x) this)"

text \<open>
  The loop, in the order of \<open>allowedUpdates\<close>. The path \<open>assignedTo\<close> casts the string it
  is given.
\<close>

definition apply_updates :: "ticket_updates \<Rightarrow> ticket_doc \<Rightarrow> ticket_doc" where
  "apply_updates updates this =
     (let d1 = assign (upd_title updates) (\<lambda>v t. t\<lparr>t_title := v\<rparr>) this;
          d2 = assign (upd_description updates) (\<lambda>v t. t\<lparr>t_description := v\<rparr>) d1;
          d3 = (case upd_status updates of None \<Rightarrow> d2 | Some v \<Rightarrow> set_status v d2);
          d4 = assign (upd_priority updates) (\<lambda>v t. t\<lparr>t_priority := v\<rparr>) d3;
          d5 = assign (upd_type updates) (\<lambda>v t. t\<lparr>t_type := v\<rparr>) d4;
          d6 = assign (upd_assignedTo updates)
                 (\<lambda>v t. t\<lparr>t_assignedTo := Option.bind v castObjectId\<rparr>) d5;
          d7 = assign (upd_dueDate updates) (\<lambda>v t. t\<lparr>t_dueDate := Some v\<rparr>) d6;
          d8 = assign (upd_estimatedHours updates) (\<lambda>v t. t\<lparr>t_estimatedHours := Some v\<rparr>) d7;
          d9 = assign (upd_actualHours updates) (\<lambda>v t. t\<lparr>t_actualHours := v\<rparr>) d8;
          d10 = assign (upd_tags updates) (\<lambda>v t. t\<lparr>t_tags := v\<rparr>) d9
      in d10)"

text \<open>
  What \<open>updateTicket\<close> does to the loaded document before \<open>save\<close>: the loop, then
  \<open>ticket.modifiedBy = req.user._id\<close>.
\<close>

definition update_doc :: "oid \<Rightarrow> ticket_updates \<Rightarrow> ticket \<Rightarrow> ticket_doc" where
  "update_doc actor updates t = (apply_updates updates (loaded t))\<lparr>d_modifiedBy := Some actor\<rparr>"

text \<open>
  The ticket that a save of \<open>updateTicket\<close>'s document stores: the stored paths of the
  document after the hooks.
\<close>

definition saved_update :: "date \<Rightarrow> oid \<Rightarrow> ticket_updates \<Rightarrow> ticket \<Rightarrow> ticket" where
  "saved_update now actor updates t =
     d_fields (pre_save now (stamp now (update_doc actor updates t)))"

text \<open>An update body changes the status when it carries a status other than the ticket's.\<close>

definition status_changes :: "ticket_updates \<Rightarrow> ticket \<Rightarrow> bool" where
  "status_changes updates t =
     (case upd_status updates of None \<Rightarrow> False | Some v \<Rightarrow> v \<noteq> t_status t)"

text \<open>
  \<open>updateTicket\<close>. The project is read through the populated path of the ticket, which
  throws when the reference does not resolve. An \<open>assignedTo\<close> that is the empty string
  is falsy and skips the check of the assignee; the path \<open>assignedTo\<close> cannot cast it, so
  \<open>save\<close> rejects the document.
\<close>

definition updateTicket ::
  "rendering \<Rightarrow> date \<Rightarrow> user \<Rightarrow> oid \<Rightarrow> ticket_updates \<Rightarrow> store \<Rightarrow>
     store \<times> (error + ticket \<times> notification list)" where
  "updateTicket rnd now reqUser ticketId updates s =
     (case findById t_id ticketId (tickets s) of
        None \<Rightarrow> (s, Inl (ApiError ''Ticket not found'' 404))
      | Some ticket \<Rightarrow>
          (case findById p_id (t_project ticket) (projects s) of
             None \<Rightarrow> (s, Inl TypeError)
           | Some project \<Rightarrow>
               (case denied reqUser
                       (hasAccess (unpopulated project) (IdObject (u_id reqUser)) CONTRIBUTOR) of
                  Inl e \<Rightarrow> (s, Inl e)
                | Inr d \<Rightarrow>
                    if d then (s, Inl (ApiError ''Access denied to update this ticket'' 403))
                    else
                      let previousStatus = t_status ticket;
                          previousAssignedTo = populateUser s (t_assignedTo ticket);
                          assigneeError =
                            (case upd_assignedTo updates of
                               Some (Some a) \<Rightarrow>
                                 if a = [] then None
                                 else
                                   (case verifyAssignee ''Assigned user not found or inactive''
                                           ''Assigned user does not have access to this project''
                                           reqUser project a s of
                                      Inl e \<Rightarrow> Some e
                                    | Inr found \<Rightarrow> None)
                             | _ \<Rightarrow> None)
                      in (case assigneeError of
                            Some e \<Rightarrow> (s, Inl e)
                          | None \<Rightarrow>
                             if upd_assignedTo updates = Some (Some [])
                             then (s, Inl ValidationError)
                             else
                             (case save_ticket now (update_doc (u_id reqUser) updates ticket) s of
                                (s', Inl e) \<Rightarrow> (s', Inl e)
                              | (s', Inr saved) \<Rightarrow>
                                  let assignedTo = map_option select_name_email
                                                     (populateUser s' (t_assignedTo saved));
                                      createdBy = map_option select_name_email
                                                     (populateUser s' (Some (t_createdBy saved)));
                                      shouldNotifyStatusChange = (previousStatus \<noteq> t_status saved);
                                      shouldNotifyAssignment =
                                        (upd_assignedTo updates \<noteq> None \<and>
                                         map_option (docToString rnd) previousAssignedTo \<noteq>
                                         map_option (refToString rnd) assignedTo)
                                  in (s', Inr (saved,
                                       (if shouldNotifyStatusChange
                                        then [TicketStatusUpdateEmail (t_id saved)
                                                (sendTicketStatusUpdateEmail assignedTo createdBy)]
                                        else []) @
                                       (case assignedTo of
                                          None \<Rightarrow> []
                                        | Some a \<Rightarrow>
                                            if shouldNotifyAssignment \<and> r_id a \<noteq> u_id reqUser
                                            then [TicketAssignmentEmail (t_id saved) (r_email a)]
                                            else []))))))))"

definition assignTicket ::
  "date \<Rightarrow> user \<Rightarrow> oid \<Rightarrow> string \<Rightarrow> store \<Rightarrow> store \<times> (error + ticket \<times> notification list)" where
  "assignTicket now reqUser ticketId userId s =
     (case findById t_id ticketId (tickets s) of
        None \<Rightarrow> (s, Inl (ApiError ''Ticket not found'' 404))
      | Some ticket \<Rightarrow>
          (case findById p_id (t_project ticket) (projects s) of
             None \<Rightarrow> (s, Inl TypeError)
           | Some project \<Rightarrow>
               (case denied reqUser
                       (hasAccess (unpopulated project) (IdObject (u_id reqUser)) CONTRIBUTOR) of
                  Inl e \<Rightarrow> (s, Inl e)
                | Inr d \<Rightarrow>
                    if d then (s, Inl (ApiError ''Access denied to assign this ticket'' 403))
                    else
                      (case verifyAssignee ''User not found or inactive''
                              ''User does not have access to this project''
                              reqUser project userId s of
                         Inl e \<Rightarrow> (s, Inl e)
                       | Inr assignedUser \<Rightarrow>
                           let previousAssignee = t_assignedTo ticket;
                               this = (set_path (\<lambda>t. t\<lparr>t_assignedTo := castObjectId userId\<rparr>)
                                         (loaded ticket))
                                        \<lparr>d_modifiedBy := Some (u_id reqUser)\<rparr>
                           in (case save_ticket now this s of
                                 (s', Inl e) \<Rightarrow> (s', Inl e)
                               | (s', Inr saved) \<Rightarrow>
                                   (s', Inr (saved,
                                      (if userId \<noteq> toHexString (u_id reqUser)
                                       then [TicketAssignmentEmail (t_id saved)
                                               (u_email assignedUser)]
                                       else []))))))))"

definition unassignTicket ::
  "date \<Rightarrow> user \<Rightarrow> oid \<Rightarrow> store \<Rightarrow> store \<times> (error + ticket \<times> notification list)" where
  "unassignTicket now reqUser ticketId s =
     (case findById t_id ticketId (tickets s) of
        None \<Rightarrow> (s, Inl (ApiError ''Ticket not found'' 404))
      | Some ticket \<Rightarrow>
          (case findById p_id (t_project ticket) (projects s) of
             None \<Rightarrow> (s, Inl TypeError)
           | Some project \<Rightarrow>
               (case denied reqUser
                       (hasAccess (unpopulated project) (IdObject (u_id reqUser)) CONTRIBUTOR) of
                  Inl e \<Rightarrow> (s, Inl e)
                | Inr d \<Rightarrow>
                    if d then (s, Inl (ApiError ''Access denied to unassign this ticket'' 403))
                    else
                      let this = (set_path (\<lambda>t. t\<lparr>t_assignedTo := None\<rparr>) (loaded ticket))
                                   \<lparr>d_modifiedBy := Some (u_id reqUser)\<rparr>
                      in (case save_ticket now this s of
                            (s', Inl e) \<Rightarrow> (s', Inl e)
                          | (s', Inr saved) \<Rightarrow> (s', Inr (saved, []))))))"

section \<open>Project controller (controllers/projectController.js)\<close>

text \<open>
  \<open>populate\<close> of a user reference with a selection of paths: the path then holds the
  document, or null when no user has the id.
\<close>

definition populate_path :: "(user \<Rightarrow> string) \<Rightarrow> store \<Rightarrow> oid \<Rightarrow> user_path" where
  "populate_path render s i =
     (case findById u_id i (users s) of None \<Rightarrow> Null | Some u \<Rightarrow> Populated (render u))"

text \<open>
  The query of \<open>getProjectById\<close>,
  \<open>.populate('createdBy', 'name email role').populate('members.user', 'name email role')\<close>:
  the project document as the controller holds it.
\<close>

definition populate_project :: "rendering \<Rightarrow> store \<Rightarrow> project \<Rightarrow> project_doc" where
  "populate_project rnd s project =
     \<lparr>pd_createdBy = populate_path (roleRefToString rnd) s (p_createdBy project),
      pd_members =
        map (\<lambda>m. \<lparr>md_user = populate_path (roleRefToString rnd) s (m_user m),
                   md_role = m_role m\<rparr>) (p_members project)\<rparr>"

text \<open>
  \<open>getProjectById\<close>: \<open>project.hasAccess(req.user._id)\<close> is called on the populated
  document, at the default level VIEWER. The controller writes nothing.
\<close>

definition getProjectById :: "rendering \<Rightarrow> user \<Rightarrow> oid \<Rightarrow> store \<Rightarrow> error + project" where
  "getProjectById rnd reqUser projectId s =
     (case find (\<lambda>p. p_id p = projectId \<and> p_isActive p) (projects s) of
        None \<Rightarrow> Inl (ApiError ''Project not found'' 404)
      | Some project \<Rightarrow>
          (case denied reqUser
                  (hasAccess (populate_project rnd s project) (IdObject (u_id reqUser)) VIEWER) of
             Inl e \<Rightarrow> Inl e
           | Inr d \<Rightarrow>
               if d then Inl (ApiError ''Access denied to this project'' 403)
               else Inr project))"

datatype delete_result = Archived project | Deactivated user | Deleted

text \<open>
  \<open>deleteProject\<close>. The save of the soft delete assigns \<open>isActive\<close> and \<open>status\<close> only,
  both valid by typing.
\<close>

definition deleteProject :: "oid \<Rightarrow> store \<Rightarrow> store \<times> (error + delete_result)" where
  "deleteProject projectId s =
     (case find (\<lambda>p. p_id p = projectId \<and> p_isActive p) (projects s) of
        None \<Rightarrow> (s, Inl (ApiError ''Project not found'' 404))
      | Some project \<Rightarrow>
          (case find (\<lambda>t. t_project t = projectId) (tickets s) of
             Some hasTickets \<Rightarrow>
               let project' = project\<lparr>p_isActive := False, p_status := ARCHIVED\<rparr>
               in (s\<lparr>projects := saveDoc p_id project' (projects s)\<rparr>, Inr (Archived project'))
           | None \<Rightarrow>
               (s\<lparr>projects := findByIdAndDelete p_id projectId (projects s)\<rparr>, Inr Deleted)))"

text \<open>The member roles the schema's enum accepts, by name.\<close>

fun parse_member_role :: "string \<Rightarrow> member_role option" where
  "parse_member_role r =
     (if r = ''VIEWER'' then Some VIEWER
      else if r = ''CONTRIBUTOR'' then Some CONTRIBUTOR
      else if r = ''MANAGER'' then Some MANAGER
      else None)"

text \<open>
  \<open>addProjectMember\<close>; \<open>userId\<close> and \<open>role\<close> are the strings of the body, the role
  \<open>'CONTRIBUTOR'\<close> when absent. The query for the user casts \<open>userId\<close>; the test for an
  existing member is \<open>member.user.toString() === userId\<close>, on the string as it came. The
  pushed entry is cast and validated against the role enum on \<open>save\<close>, before the write.
\<close>

definition addProjectMember ::
  "date \<Rightarrow> user \<Rightarrow> oid \<Rightarrow> string \<Rightarrow> string option \<Rightarrow> store \<Rightarrow>
     store \<times> (error + project \<times> notification list)" where
  "addProjectMember now reqUser projectId userId roleOpt s =
     (let role = (case roleOpt of None \<Rightarrow> ''CONTRIBUTOR'' | Some r \<Rightarrow> r)
      in case find (\<lambda>p. p_id p = projectId \<and> p_isActive p) (projects s) of
           None \<Rightarrow> (s, Inl (ApiError ''Project not found'' 404))
         | Some project \<Rightarrow>
             if u_role reqUser \<noteq> ADMIN \<and> p_createdBy project \<noteq> u_id reqUser
             then (s, Inl (ApiError
                    ''Access denied. Only admin or project creator can add members'' 403))
             else
               (case castObjectId userId of
                  None \<Rightarrow> (s, Inl CastError)
                | Some i \<Rightarrow>
                   (case find (\<lambda>u. u_id u = i \<and> u_isActive u) (users s) of
                      None \<Rightarrow> (s, Inl (ApiError ''User not found or inactive'' 404))
                    | Some user \<Rightarrow>
                        (case find (\<lambda>member. toHexString (m_user member) = userId)
                                (p_members project) of
                           Some existingMember \<Rightarrow>
                             (s, Inl (ApiError ''User is already a member of this project'' 400))
                         | None \<Rightarrow>
                             (case parse_member_role role of
                                None \<Rightarrow> (s, Inl ValidationError)
                              | Some r \<Rightarrow>
                                  let project' = project\<lparr>p_members := p_members project @
                                        [\<lparr>m_user = i, m_role = r, m_joinedAt = now\<rparr>]\<rparr>
                                  in (s\<lparr>projects := saveDoc p_id project' (projects s)\<rparr>,
                                      Inr (project',
                                           [ProjectInvitationEmail (p_id project')
                                              (u_email user)])))))))"

section \<open>User controller (controllers/userController.js)\<close>

fun parse_user_role :: "string \<Rightarrow> user_role option" where
  "parse_user_role r =
     (if r = ''USER'' then Some USER else if r = ''ADMIN'' then Some ADMIN else None)"

definition updateUserRole :: "user \<Rightarrow> oid \<Rightarrow> string \<Rightarrow> store \<Rightarrow> store \<times> (error + user)" where
  "updateUserRole reqUser userId role s =
     (case parse_user_role role of
        None \<Rightarrow> (s, Inl (ApiError ''Invalid role. Must be USER or ADMIN'' 400))
      | Some r \<Rightarrow>
          (case findById u_id userId (users s) of
             None \<Rightarrow> (s, Inl (ApiError ''User not found'' 404))
           | Some user \<Rightarrow>
               if u_id user = u_id reqUser
               then (s, Inl (ApiError ''Cannot modify your own role'' 400))
               else
                 let user' = user\<lparr>u_role := r\<rparr>
                 in (s\<lparr>users := saveDoc u_id user' (users s)\<rparr>, Inr user')))"

definition updateUserStatus :: "user \<Rightarrow> oid \<Rightarrow> bool \<Rightarrow> store \<Rightarrow> store \<times> (error + user)" where
  "updateUserStatus reqUser userId isActive s =
     (case findById u_id userId (users s) of
        None \<Rightarrow> (s, Inl (ApiError ''User not found'' 404))
      | Some user \<Rightarrow>
          if u_id user = u_id reqUser
          then (s, Inl (ApiError ''Cannot modify your own status'' 400))
          else
            let user' = user\<lparr>u_isActive := isActive\<rparr>
            in (s\<lparr>users := saveDoc u_id user' (users s)\<rparr>, Inr user'))"

definition deleteUser :: "user \<Rightarrow> oid \<Rightarrow> store \<Rightarrow> store \<times> (error + delete_result)" where
  "deleteUser reqUser userId s =
     (case findById u_id userId (users s) of
        None \<Rightarrow> (s, Inl (ApiError ''User not found'' 404))
      | Some user \<Rightarrow>
          if u_id user = u_id reqUser
          then (s, Inl (ApiError ''Cannot delete your own account'' 400))
          else
            let hasProjects = find (\<lambda>p. p_createdBy p = userId) (projects s);
                hasTickets = find (\<lambda>t. t_createdBy t = userId \<or> t_assignedTo t = Some userId)
                               (tickets s)
            in if hasProjects \<noteq> None \<or> hasTickets \<noteq> None
               then
                 let user' = user\<lparr>u_isActive := False\<rparr>
                 in (s\<lparr>users := saveDoc u_id user' (users s)\<rparr>, Inr (Deactivated user'))
               else (s\<lparr>users := findByIdAndDelete u_id userId (users s)\<rparr>, Inr Deleted))"

section \<open>Sequences of ticket requests\<close>

text \<open>
  The requests that write tickets, and the store after a list of them, one after the other.
  A request that throws leaves the store as its handler returns it.
\<close>

datatype request =
    CreateTicket oid date user ticket_input
  | UpdateTicket date user oid ticket_updates
  | AssignTicket date user oid string
  | UnassignTicket date user oid

fun handle :: "rendering \<Rightarrow> request \<Rightarrow> store \<Rightarrow> store" where
  "handle rnd (CreateTicket newId now reqUser body) s = fst (createTicket newId now reqUser body s)"
| "handle rnd (UpdateTicket now reqUser ticketId updates) s =
     fst (updateTicket rnd now reqUser ticketId updates s)"
| "handle rnd (AssignTicket now reqUser ticketId userId) s =
     fst (assignTicket now reqUser ticketId userId s)"
| "handle rnd (UnassignTicket now reqUser ticketId) s = fst (unassignTicket now reqUser ticketId s)"

fun run :: "rendering \<Rightarrow> request list \<Rightarrow> store \<Rightarrow> store" where
  "run rnd [] s = s"
| "run rnd (r # rs) s = run rnd rs (handle rnd r s)"

section \<open>Properties stated by the specification\<close>

text \<open>
  The relation between the status and the two timestamps that the pre-save hook maintains:
  \<open>closedAt\<close> is set exactly in status CLOSED, \<open>resolvedAt\<close> is set in status RESOLVED
  and unset in the statuses OPEN and IN\_PROGRESS.
\<close>

definition timestamps_ok :: "ticket \<Rightarrow> bool" where
  "timestamps_ok t \<longleftrightarrow>
     (t_closedAt t \<noteq> None) = (t_status t = CLOSED) \<and>
     (t_status t = RESOLVED \<longrightarrow> t_resolvedAt t \<noteq> None) \<and>
     (t_status t = OPEN \<or> t_status t = IN_PROGRESS \<longrightarrow> t_resolvedAt t = None)"

text \<open>
  What \<open>hasAccess\<close> decides on a project that is not populated, for the string of the id
  it is given: the creator's id renders as the string, or the first member entry whose id
  renders as the string has a role of at least the required rank.
\<close>

definition granted :: "project \<Rightarrow> string \<Rightarrow> member_role \<Rightarrow> bool" where
  "granted p uid requiredRole \<longleftrightarrow>
     toHexString (p_createdBy p) = uid \<or>
     (case find (\<lambda>m. toHexString (m_user m) = uid) (p_members p) of
        None \<Rightarrow> False
      | Some m \<Rightarrow> roleHierarchy (m_role m) \<ge> roleHierarchy requiredRole)"

section \<open>A small instance\<close>

text \<open>
  An administrator (Ada), three active users (Alice, Bob, Dave) and an inactive one (Carol);
  one project created by the administrator with members Alice (CONTRIBUTOR), Bob (VIEWER)
  and Dave (MANAGER); a resolved ticket created by Alice and assigned to Bob, and an open,
  unassigned ticket created by Alice.
\<close>

definition id_ada :: oid where "id_ada = ObjectId ''65a000000000000000000001''"
definition id_alice :: oid where "id_alice = ObjectId ''65a000000000000000000002''"
definition id_bob :: oid where "id_bob = ObjectId ''65a000000000000000000003''"
definition id_carol :: oid where "id_carol = ObjectId ''65a000000000000000000004''"
definition id_dave :: oid where "id_dave = ObjectId ''65a000000000000000000005''"
definition id_project :: oid where "id_project = ObjectId ''65b000000000000000000010''"
definition id_ticket :: oid where "id_ticket = ObjectId ''65c000000000000000000100''"
definition id_open_ticket :: oid where "id_open_ticket = ObjectId ''65c000000000000000000101''"

definition ex_admin :: user where
  "ex_admin = \<lparr>u_id = id_ada, u_name = ''Ada'', u_email = ''ada@example.org'', u_role = ADMIN,
               u_isActive = True\<rparr>"

definition ex_alice :: user where
  "ex_alice = \<lparr>u_id = id_alice, u_name = ''Alice'', u_email = ''alice@example.org'',
               u_role = USER, u_isActive = True\<rparr>"

definition ex_bob :: user where
  "ex_bob = \<lparr>u_id = id_bob, u_name = ''Bob'', u_email = ''bob@example.org'', u_role = USER,
             u_isActive = True\<rparr>"

definition ex_carol :: user where
  "ex_carol = \<lparr>u_id = id_carol, u_name = ''Carol'', u_email = ''carol@example.org'',
               u_role = USER, u_isActive = False\<rparr>"

definition ex_dave :: user where
  "ex_dave = \<lparr>u_id = id_dave, u_name = ''Dave'', u_email = ''dave@example.org'', u_role = USER,
              u_isActive = True\<rparr>"

definition ex_project :: project where
  "ex_project =
     \<lparr>p_id = id_project, p_name = ''Website Redesign'', p_description = ''New site'',
      p_createdBy = id_ada, p_isActive = True, p_status = ACTIVE, p_priority = P_MEDIUM,
      p_startDate = 0, p_endDate = None,
      p_members = [\<lparr>m_user = id_alice, m_role = CONTRIBUTOR, m_joinedAt = 1\<rparr>,
                   \<lparr>m_user = id_bob, m_role = VIEWER, m_joinedAt = 2\<rparr>,
                   \<lparr>m_user = id_dave, m_role = MANAGER, m_joinedAt = 3\<rparr>]\<rparr>"

definition ex_ticket :: ticket where
  "ex_ticket =
     \<lparr>t_id = id_ticket, t_title = ''Login fails'', t_description = ''Login fails on submit'',
      t_status = RESOLVED, t_priority = HIGH, t_type = BUG, t_assignedTo = Some id_bob,
      t_project = id_project, t_createdBy = id_alice, t_dueDate = None,
      t_estimatedHours = Some 4, t_actualHours = 2, t_tags = [''auth''],
      t_statusHistory =
        [\<lparr>h_status = OPEN, h_changedBy = id_alice, h_changedAt = 3,
          h_comment = Some ''Ticket created''\<rparr>,
         \<lparr>h_status = RESOLVED, h_changedBy = id_bob, h_changedAt = 5, h_comment = None\<rparr>],
      t_attachments = [], t_resolvedAt = Some 5, t_closedAt = None,
      t_createdAt = 3, t_updatedAt = 5\<rparr>"

definition ex_open_ticket :: ticket where
  "ex_open_ticket =
     \<lparr>t_id = id_open_ticket, t_title = ''Broken link'', t_description = ''Footer link is dead'',
      t_status = OPEN, t_priority = LOW, t_type = BUG, t_assignedTo = None,
      t_project = id_project, t_createdBy = id_alice, t_dueDate = None,
      t_estimatedHours = None, t_actualHours = 0, t_tags = [],
      t_statusHistory =
        [\<lparr>h_status = OPEN, h_changedBy = id_alice, h_changedAt = 4,
          h_comment = Some ''Ticket created''\<rparr>],
      t_attachments = [], t_resolvedAt = None, t_closedAt = None,
      t_createdAt = 4, t_updatedAt = 4\<rparr>"

definition ex_store :: store where
  "ex_store = \<lparr>users = [ex_admin, ex_alice, ex_bob, ex_carol, ex_dave],
               projects = [ex_project],
               tickets = [ex_ticket, ex_open_ticket]\<rparr>"

definition no_updates :: ticket_updates where
  "no_updates = \<lparr>upd_title = None, upd_description = None, upd_status = None,
                  upd_priority = None, upd_type = None, upd_assignedTo = None,
                  upd_dueDate = None, upd_estimatedHours = None, upd_actualHours = None,
                  upd_tags = None\<rparr>"

definition ex_close :: ticket_updates where
  "ex_close = no_updates\<lparr>upd_status := Some CLOSED\<rparr>"

text \<open>The resolved ticket after Alice closed it at time 7.\<close>

definition ex_closed_ticket :: ticket where
  "ex_closed_ticket =
     ex_ticket\<lparr>t_status := CLOSED,
       t_statusHistory := t_statusHistory ex_ticket @
         [\<lparr>h_status = CLOSED, h_changedBy = id_alice, h_changedAt = 7, h_comment = None\<rparr>],
       t_closedAt := Some 7,
       t_updatedAt := 7\<rparr>"

text \<open>The store after the project, which has tickets, was deleted: the project is archived.\<close>

definition ex_archived_store :: store where
  "ex_archived_store =
     ex_store\<lparr>projects := [ex_project\<lparr>p_isActive := False, p_status := ARCHIVED\<rparr>]\<rparr>"

text \<open>
  Renderings for the instance, in the layout in which a document is printed: the loaded
  paths between braces.
\<close>

definition ex_rendering :: rendering where
  "ex_rendering =
     \<lparr>docToString = (\<lambda>u. ''{ _id: '' @ toHexString (u_id u) @ '', name: '' @ u_name u @
                          '', email: '' @ u_email u @ '', role: '' @
                          (if u_role u = ADMIN then ''ADMIN'' else ''USER'') @
                          '', isActive: '' @ (if u_isActive u then ''true'' else ''false'') @
                          '' }''),
      refToString = (\<lambda>r. ''{ _id: '' @ toHexString (r_id r) @ '', name: '' @ r_name r @
                          '', email: '' @ r_email r @ '' }''),
      roleRefToString = (\<lambda>u. ''{ _id: '' @ toHexString (u_id u) @ '', name: '' @ u_name u @
                          '', email: '' @ u_email u @ '', role: '' @
                          (if u_role u = ADMIN then ''ADMIN'' else ''USER'') @ '' }'')\<rparr>"


text \<open>Update bodies: reopen a ticket; give it another title.\<close>

definition ex_reopen :: ticket_updates where
  "ex_reopen = no_updates\<lparr>upd_status := Some OPEN\<rparr>"

definition ex_retitle :: ticket_updates where
  "ex_retitle = no_updates\<lparr>upd_title := Some ''Login fails on Safari''\<rparr>"

text \<open>The resolved ticket after Alice gave it the other title at time 7.\<close>

definition ex_retitled_ticket :: ticket where
  "ex_retitled_ticket = ex_ticket\<lparr>t_title := ''Login fails on Safari'', t_updatedAt := 7\<rparr>"

text \<open>The open ticket after it was assigned to Bob at time 9.\<close>

definition ex_assigned_ticket :: ticket where
  "ex_assigned_ticket = ex_open_ticket\<lparr>t_assignedTo := Some id_bob, t_updatedAt := 9\<rparr>"

text \<open>The resolved ticket after it was unassigned at time 9.\<close>

definition ex_unassigned_ticket :: ticket where
  "ex_unassigned_ticket = ex_ticket\<lparr>t_assignedTo := None, t_updatedAt := 9\<rparr>"

text \<open>Alice's id as a request body may spell it, with the hexadecimal digit in upper case.\<close>

definition alice_upper_case :: string where
  "alice_upper_case = ''65A000000000000000000002''"

text \<open>The project after Alice was added as a member a second time, at time 9.\<close>

definition ex_project_alice_twice :: project where
  "ex_project_alice_twice =
     ex_project\<lparr>p_members := p_members ex_project @
       [\<lparr>m_user = id_alice, m_role = CONTRIBUTOR, m_joinedAt = 9\<rparr>]\<rparr>"
section \<open>Properties of the document operations\<close>

lemmas ex_defs = ex_store_def ex_admin_def ex_alice_def ex_bob_def ex_carol_def ex_dave_def
  ex_project_def ex_ticket_def ex_open_ticket_def ex_closed_ticket_def no_updates_def
  ex_close_def ex_rendering_def id_ada_def id_alice_def id_bob_def id_carol_def id_dave_def
  id_project_def id_ticket_def id_open_ticket_def

lemmas eval_defs = findById_def hasAccess_def denied_def unpopulated_def verifyAssignee_def
  castObjectId_def is_hex_digit_def lower_hex_def save_ticket_def ticket_valid_def
  update_doc_def apply_updates_def assign_def set_path_def loaded_def set_status_def stamp_def
  pre_save_def track_status_history_def set_timestamps_def saveDoc_def findByIdAndDelete_def
  populateUser_def select_name_email_def sendTicketStatusUpdateEmail_def Let_def

lemma set_path_flags [simp]:
  "d_isNew (set_path put d) = d_isNew d"
  "d_statusModified (set_path put d) = d_statusModified d"
  "d_modifiedBy (set_path put d) = d_modifiedBy d"
  by (simp_all add: set_path_def)

lemma set_path_fields: "d_fields (set_path put d) = put (d_fields d)"
  by (simp add: set_path_def)

lemma assign_flags [simp]:
  "d_isNew (assign v put d) = d_isNew d"
  "d_statusModified (assign v put d) = d_statusModified d"
  "d_modifiedBy (assign v put d) = d_modifiedBy d"
  by (simp_all add: assign_def split: option.split)

lemma assign_frame:
  "(\<And>x t. f (put x t) = f t) \<Longrightarrow> f (d_fields (assign v put d)) = f (d_fields d)"
  by (simp add: assign_def set_path_fields split: option.split)


lemmas assign_frames =
  assign_frame [where f = t_id] assign_frame [where f = t_title]
  assign_frame [where f = t_description] assign_frame [where f = t_status]
  assign_frame [where f = t_priority] assign_frame [where f = t_type]
  assign_frame [where f = t_assignedTo] assign_frame [where f = t_project]
  assign_frame [where f = t_createdBy] assign_frame [where f = t_dueDate]
  assign_frame [where f = t_estimatedHours] assign_frame [where f = t_actualHours]
  assign_frame [where f = t_tags] assign_frame [where f = t_statusHistory]
  assign_frame [where f = t_attachments] assign_frame [where f = t_resolvedAt]
  assign_frame [where f = t_closedAt] assign_frame [where f = t_createdAt]
  assign_frame [where f = t_updatedAt]

lemma set_status_fields:
  "d_fields (set_status v d) = (d_fields d)\<lparr>t_status := v\<rparr>"
  by (simp add: set_status_def)

lemma set_status_flags [simp]:
  "d_isNew (set_status v d) = d_isNew d"
  "d_modifiedBy (set_status v d) = d_modifiedBy d"
  "d_statusModified (set_status v d) = (d_statusModified d \<or> v \<noteq> t_status (d_fields d))"
  by (auto simp add: set_status_def)

lemma status_step_fields:
  "d_fields (case v of None \<Rightarrow> d | Some y \<Rightarrow> set_status y d) =
     (d_fields d)\<lparr>t_status := (case v of None \<Rightarrow> t_status (d_fields d) | Some y \<Rightarrow> y)\<rparr>"
  by (cases v) (simp_all add: set_status_fields)

lemma status_step_flags:
  "d_isNew (case v of None \<Rightarrow> d | Some y \<Rightarrow> set_status y d) = d_isNew d"
  "d_modifiedBy (case v of None \<Rightarrow> d | Some y \<Rightarrow> set_status y d) = d_modifiedBy d"
  "d_statusModified (case v of None \<Rightarrow> d | Some y \<Rightarrow> set_status y d) =
     (d_statusModified d \<or> (case v of None \<Rightarrow> False | Some y \<Rightarrow> y \<noteq> t_status (d_fields d)))"
  by (cases v; simp)+

lemma apply_updates_kept:
  "t_id (d_fields (apply_updates u d)) = t_id (d_fields d)"
  "t_project (d_fields (apply_updates u d)) = t_project (d_fields d)"
  "t_createdBy (d_fields (apply_updates u d)) = t_createdBy (d_fields d)"
  "t_statusHistory (d_fields (apply_updates u d)) = t_statusHistory (d_fields d)"
  "t_attachments (d_fields (apply_updates u d)) = t_attachments (d_fields d)"
  "t_resolvedAt (d_fields (apply_updates u d)) = t_resolvedAt (d_fields d)"
  "t_closedAt (d_fields (apply_updates u d)) = t_closedAt (d_fields d)"
  "t_createdAt (d_fields (apply_updates u d)) = t_createdAt (d_fields d)"
  "t_updatedAt (d_fields (apply_updates u d)) = t_updatedAt (d_fields d)"
  by (simp_all add: apply_updates_def Let_def assign_frames status_step_fields
        cong: option.case_cong)

lemma apply_updates_status:
  "t_status (d_fields (apply_updates u d)) =
     (case upd_status u of None \<Rightarrow> t_status (d_fields d) | Some v \<Rightarrow> v)"
  by (simp add: apply_updates_def Let_def assign_frames status_step_fields
        cong: option.case_cong)


lemma apply_updates_flags:
  "d_isNew (apply_updates u d) = d_isNew d"
  "d_modifiedBy (apply_updates u d) = d_modifiedBy d"
  "d_statusModified (apply_updates u d) =
     (d_statusModified d \<or> (case upd_status u of None \<Rightarrow> False | Some v \<Rightarrow> v \<noteq> t_status (d_fields d)))"
  by (simp_all add: apply_updates_def Let_def assign_frames status_step_flags
        cong: option.case_cong)

lemma loaded_simps [simp]:
  "d_fields (loaded t) = t"
  "d_isNew (loaded t) = False"
  "d_modified (loaded t) = False"
  "d_statusModified (loaded t) = False"
  "d_modifiedBy (loaded t) = None"
  by (simp_all add: loaded_def)

lemma update_doc_flags:
  "d_isNew (update_doc a u t) = False"
  "d_modifiedBy (update_doc a u t) = Some a"
  "d_statusModified (update_doc a u t) = status_changes u t"
  by (simp_all add: update_doc_def apply_updates_flags status_changes_def
        cong: option.case_cong)

lemma update_doc_fields:
  "d_fields (update_doc a u t) = d_fields (apply_updates u (loaded t))"
  by (simp add: update_doc_def)

lemma stamp_flags [simp]:
  "d_isNew (stamp now d) = d_isNew d"
  "d_statusModified (stamp now d) = d_statusModified d"
  "d_modifiedBy (stamp now d) = d_modifiedBy d"
  by (simp_all add: stamp_def)

lemma stamp_frame:
  "\<not> d_isNew d \<Longrightarrow> (\<And>t v. f (t\<lparr>t_updatedAt := v\<rparr>) = f t) \<Longrightarrow>
   f (d_fields (stamp now d)) = f (d_fields d)"
  by (simp add: stamp_def)

lemmas stamp_frames =
  stamp_frame [where f = t_id] stamp_frame [where f = t_title]
  stamp_frame [where f = t_description] stamp_frame [where f = t_status]
  stamp_frame [where f = t_priority] stamp_frame [where f = t_type]
  stamp_frame [where f = t_assignedTo] stamp_frame [where f = t_project]
  stamp_frame [where f = t_createdBy] stamp_frame [where f = t_dueDate]
  stamp_frame [where f = t_estimatedHours] stamp_frame [where f = t_actualHours]
  stamp_frame [where f = t_tags] stamp_frame [where f = t_statusHistory]
  stamp_frame [where f = t_attachments] stamp_frame [where f = t_resolvedAt]
  stamp_frame [where f = t_closedAt] stamp_frame [where f = t_createdAt]

text \<open>The ticket of the updated document when \<open>save\<close> has stamped it.\<close>

lemma stamped_kept:
  "t_id (d_fields (stamp now (update_doc a u t))) = t_id t"
  "t_project (d_fields (stamp now (update_doc a u t))) = t_project t"
  "t_createdBy (d_fields (stamp now (update_doc a u t))) = t_createdBy t"
  "t_statusHistory (d_fields (stamp now (update_doc a u t))) = t_statusHistory t"
  "t_attachments (d_fields (stamp now (update_doc a u t))) = t_attachments t"
  "t_resolvedAt (d_fields (stamp now (update_doc a u t))) = t_resolvedAt t"
  "t_closedAt (d_fields (stamp now (update_doc a u t))) = t_closedAt t"
  "t_createdAt (d_fields (stamp now (update_doc a u t))) = t_createdAt t"
  by (simp_all add: stamp_frames update_doc_flags update_doc_fields apply_updates_kept)

lemma stamped_status:
  "t_status (d_fields (stamp now (update_doc a u t))) =
     (case upd_status u of None \<Rightarrow> t_status t | Some v \<Rightarrow> v)"
  by (simp add: stamp_frames update_doc_flags update_doc_fields apply_updates_status
        cong: option.case_cong)


lemma set_timestamps_kept:
  "t_id (set_timestamps now t) = t_id t"
  "t_title (set_timestamps now t) = t_title t"
  "t_description (set_timestamps now t) = t_description t"
  "t_status (set_timestamps now t) = t_status t"
  "t_priority (set_timestamps now t) = t_priority t"
  "t_type (set_timestamps now t) = t_type t"
  "t_assignedTo (set_timestamps now t) = t_assignedTo t"
  "t_project (set_timestamps now t) = t_project t"
  "t_createdBy (set_timestamps now t) = t_createdBy t"
  "t_dueDate (set_timestamps now t) = t_dueDate t"
  "t_estimatedHours (set_timestamps now t) = t_estimatedHours t"
  "t_actualHours (set_timestamps now t) = t_actualHours t"
  "t_tags (set_timestamps now t) = t_tags t"
  "t_statusHistory (set_timestamps now t) = t_statusHistory t"
  "t_attachments (set_timestamps now t) = t_attachments t"
  "t_createdAt (set_timestamps now t) = t_createdAt t"
  "t_updatedAt (set_timestamps now t) = t_updatedAt t"
  by (simp_all add: set_timestamps_def Let_def)

lemma set_timestamps_resolvedAt:
  "t_resolvedAt (set_timestamps now t) =
     (if t_status t = RESOLVED then (case t_resolvedAt t of None \<Rightarrow> Some now | Some r \<Rightarrow> Some r)
      else if t_status t = CLOSED then t_resolvedAt t
      else None)"
  by (cases "t_resolvedAt t") (simp_all add: set_timestamps_def Let_def)

lemma set_timestamps_closedAt:
  "t_closedAt (set_timestamps now t) =
     (if t_status t = CLOSED then (case t_closedAt t of None \<Rightarrow> Some now | Some c \<Rightarrow> Some c)
      else None)"
  by (cases "t_closedAt t") (simp_all add: set_timestamps_def Let_def)

lemma pre_save_unmodified:
  "\<not> d_statusModified d \<Longrightarrow> pre_save now d = d"
  by (simp add: pre_save_def track_status_history_def Let_def)

lemma pre_save_modified:
  "d_statusModified d \<Longrightarrow> \<not> d_isNew d \<Longrightarrow>
   d_fields (pre_save now d) =
     set_timestamps now ((d_fields d)\<lparr>t_statusHistory := t_statusHistory (d_fields d) @
        [\<lparr>h_status = t_status (d_fields d),
          h_changedBy = (case d_modifiedBy d of Some u \<Rightarrow> u | None \<Rightarrow> t_createdBy (d_fields d)),
          h_changedAt = now, h_comment = None\<rparr>]\<rparr>)"
  by (simp add: pre_save_def track_status_history_def Let_def)

lemma saved_update_unchanged_status:
  "\<not> status_changes u t \<Longrightarrow>
   saved_update now a u t = d_fields (stamp now (update_doc a u t))"
  by (simp add: saved_update_def pre_save_unmodified update_doc_flags)

lemma saved_update_changed_status:
  "status_changes u t \<Longrightarrow>
   saved_update now a u t =
     set_timestamps now ((d_fields (stamp now (update_doc a u t)))\<lparr>t_statusHistory :=
        t_statusHistory t @
        [\<lparr>h_status = t_status (d_fields (stamp now (update_doc a u t))),
          h_changedBy = a, h_changedAt = now, h_comment = None\<rparr>]\<rparr>)"
  by (simp add: saved_update_def pre_save_modified update_doc_flags stamped_kept)

lemma saved_update_status:
  "t_status (saved_update now a u t) =
     (case upd_status u of None \<Rightarrow> t_status t | Some v \<Rightarrow> v)"
  by (cases "status_changes u t")
     (simp_all add: saved_update_unchanged_status saved_update_changed_status
        set_timestamps_kept stamped_status)

lemma saved_update_history:
  "t_statusHistory (saved_update now a u t) =
     (if status_changes u t
      then t_statusHistory t @
             [\<lparr>h_status = t_status (saved_update now a u t), h_changedBy = a,
               h_changedAt = now, h_comment = None\<rparr>]
      else t_statusHistory t)"
  by (cases "status_changes u t")
     (simp_all add: saved_update_unchanged_status saved_update_changed_status
        set_timestamps_kept stamped_status stamped_kept)

lemma saved_update_kept:
  "t_id (saved_update now a u t) = t_id t"
  "t_project (saved_update now a u t) = t_project t"
  "t_createdBy (saved_update now a u t) = t_createdBy t"
  "t_attachments (saved_update now a u t) = t_attachments t"
  "t_createdAt (saved_update now a u t) = t_createdAt t"
  by (cases "status_changes u t";
      simp add: saved_update_unchanged_status saved_update_changed_status
        set_timestamps_kept stamped_kept)+


lemma saved_update_resolvedAt:
  "t_resolvedAt (saved_update now a u t) =
     (if \<not> status_changes u t then t_resolvedAt t
      else if upd_status u = Some RESOLVED
           then (case t_resolvedAt t of None \<Rightarrow> Some now | Some r \<Rightarrow> Some r)
      else if upd_status u = Some CLOSED then t_resolvedAt t
      else None)"
proof (cases "status_changes u t")
  case False
  then show ?thesis
    by (simp add: saved_update_unchanged_status stamped_kept)
next
  case True
  then obtain v where v: "upd_status u = Some v"
    by (cases "upd_status u") (simp_all add: status_changes_def)
  with True show ?thesis
    by (simp add: saved_update_changed_status set_timestamps_resolvedAt
          stamped_status stamped_kept)
qed

lemma saved_update_closedAt:
  "t_closedAt (saved_update now a u t) =
     (if \<not> status_changes u t then t_closedAt t
      else if upd_status u = Some CLOSED
           then (case t_closedAt t of None \<Rightarrow> Some now | Some c \<Rightarrow> Some c)
      else None)"
proof (cases "status_changes u t")
  case False
  then show ?thesis
    by (simp add: saved_update_unchanged_status stamped_kept)
next
  case True
  then obtain v where v: "upd_status u = Some v"
    by (cases "upd_status u") (simp_all add: status_changes_def)
  with True show ?thesis
    by (simp add: saved_update_changed_status set_timestamps_closedAt
          stamped_status stamped_kept)
qed

lemma findById_key: "findById key i docs = Some d \<Longrightarrow> key d = i \<and> d \<in> set docs"
  by (auto simp: findById_def find_Some_iff)

lemma findById_saveDoc:
  "d \<in> set docs \<Longrightarrow> key d = i \<Longrightarrow> key d' = i \<Longrightarrow>
   findById key i (saveDoc key d' docs) = Some d'"
  by (induction docs) (auto simp: findById_def saveDoc_def)

lemma findById_deleted:
  "findById key i (findByIdAndDelete key i docs) = None"
  by (induction docs) (auto simp: findById_def findByIdAndDelete_def)

lemma set_saveDoc: "set (saveDoc key d docs) \<subseteq> insert d (set docs)"
  by (auto simp: saveDoc_def)

section \<open>Properties of the access check\<close>

lemma find_member_unpopulated:
  "find_member uid (map (\<lambda>m. \<lparr>md_user = Ref (m_user m), md_role = m_role m\<rparr>) ms) =
     Inr (map_option (\<lambda>m. \<lparr>md_user = Ref (m_user m), md_role = m_role m\<rparr>)
            (find (\<lambda>m. toHexString (m_user m) = uid) ms))"
  by (induction ms) simp_all

text \<open>
  On a project that is not populated, \<open>hasAccess\<close> does not throw, and decides by the
  strings of the stored ids.
\<close>

lemma hasAccess_unpopulated:
  "hasAccess (unpopulated p) a l = Inr (granted p (id_toString a) l)"
  by (cases "find (\<lambda>m. toHexString (m_user m) = id_toString a) (p_members p)")
     (simp_all add: hasAccess_def unpopulated_def granted_def find_member_unpopulated)

lemma denied_unpopulated:
  "denied reqUser (hasAccess (unpopulated p) a l) =
     Inr (u_role reqUser \<noteq> ADMIN \<and> \<not> granted p (id_toString a) l)"
  by (simp add: denied_def hasAccess_unpopulated)

lemma verifyAssignee_Inr:
  "verifyAssignee notFound noAccess reqUser p a s = Inr au \<Longrightarrow>
   \<exists>i. castObjectId a = Some i \<and>
       find (\<lambda>u. u_id u = i \<and> u_isActive u) (users s) = Some au \<and>
       (u_role reqUser = ADMIN \<or> granted p a VIEWER)"
  by (auto simp: verifyAssignee_def denied_unpopulated split: option.splits if_splits)

section \<open>Properties of the ticket controller\<close>

lemma save_ticket_Inl:
  "save_ticket now d s = (s', Inl e) \<Longrightarrow> s' = s \<and> e = ValidationError"
  by (auto simp: save_ticket_def Let_def split: if_splits)

lemma save_ticket_Inr:
  "save_ticket now d s = (s', Inr t') \<Longrightarrow>
   ticket_valid (d_fields d) \<and> t' = d_fields (pre_save now (stamp now d)) \<and>
   s' = s\<lparr>tickets := (if d_isNew d then tickets s @ [t'] else saveDoc t_id t' (tickets s))\<rparr>"
  by (auto simp: save_ticket_def Let_def split: if_splits)

lemma assignedTo_update_id: "(t\<lparr>t_assignedTo := x\<rparr> = t) = (t_assignedTo t = x)"
  by (cases t) auto

text \<open>The ticket that a save of \<open>assignTicket\<close>'s or \<open>unassignTicket\<close>'s document stores.\<close>

lemma saved_assignment:
  "d_fields (pre_save now (stamp now
     ((set_path (\<lambda>t. t\<lparr>t_assignedTo := x\<rparr>) (loaded t))\<lparr>d_modifiedBy := m\<rparr>))) =
   (if t_assignedTo t = x then t else t\<lparr>t_assignedTo := x, t_updatedAt := now\<rparr>)"
  by (simp add: set_path_def loaded_def stamp_def pre_save_def track_status_history_def
        assignedTo_update_id)

lemma assignment_doc [simp]:
  "d_fields ((set_path (\<lambda>t. t\<lparr>t_assignedTo := x\<rparr>) (loaded t))\<lparr>d_modifiedBy := m\<rparr>) =
     t\<lparr>t_assignedTo := x\<rparr>"
  "d_isNew ((set_path (\<lambda>t. t\<lparr>t_assignedTo := x\<rparr>) (loaded t))\<lparr>d_modifiedBy := m\<rparr>) = False"
  by (simp_all add: set_path_def)

lemma updateTicket_stages:
  "updateTicket rnd now reqUser ticketId updates s =
     (case findById t_id ticketId (tickets s) of
        None \<Rightarrow> (s, Inl (ApiError ''Ticket not found'' 404))
      | Some ticket \<Rightarrow>
          (case findById p_id (t_project ticket) (projects s) of
             None \<Rightarrow> (s, Inl TypeError)
           | Some project \<Rightarrow>
               if u_role reqUser \<noteq> ADMIN \<and>
                  \<not> granted project (toHexString (u_id reqUser)) CONTRIBUTOR
               then (s, Inl (ApiError ''Access denied to update this ticket'' 403))
               else
                 (case (case upd_assignedTo updates of
                          Some (Some a) \<Rightarrow>
                            if a = [] then None
                            else
                              (case verifyAssignee ''Assigned user not found or inactive''
                                      ''Assigned user does not have access to this project''
                                      reqUser project a s of
                                 Inl e \<Rightarrow> Some e
                               | Inr found \<Rightarrow> None)
                        | _ \<Rightarrow> None) of
                    Some e \<Rightarrow> (s, Inl e)
                  | None \<Rightarrow>
                      if upd_assignedTo updates = Some (Some []) \<or>
                         \<not> ticket_valid (d_fields (update_doc (u_id reqUser) updates ticket))
                      then (s, Inl ValidationError)
                      else
                        (s\<lparr>tickets := saveDoc t_id (saved_update now (u_id reqUser) updates ticket)
                                         (tickets s)\<rparr>,
                         Inr (saved_update now (u_id reqUser) updates ticket,
                           (if t_status ticket \<noteq>
                                 t_status (saved_update now (u_id reqUser) updates ticket)
                            then [TicketStatusUpdateEmail ticketId
                                   (sendTicketStatusUpdateEmail
                                      (map_option select_name_email (populateUser s
                                         (t_assignedTo (saved_update now (u_id reqUser) updates ticket))))
                                      (map_option select_name_email (populateUser s
                                         (Some (t_createdBy ticket)))))]
                            else []) @
                           (case map_option select_name_email (populateUser s
                                   (t_assignedTo (saved_update now (u_id reqUser) updates ticket))) of
                              None \<Rightarrow> []
                            | Some a \<Rightarrow>
                                if (upd_assignedTo updates \<noteq> None \<and>
                                    map_option (docToString rnd)
                                      (populateUser s (t_assignedTo ticket)) \<noteq>
                                    map_option (refToString rnd)
                                      (map_option select_name_email (populateUser s
                                        (t_assignedTo (saved_update now (u_id reqUser) updates ticket)))))
                                   \<and> r_id a \<noteq> u_id reqUser
                                then [TicketAssignmentEmail ticketId (r_email a)]
                                else []))))))"
proof (cases "findById t_id ticketId (tickets s)")
  case None
  then show ?thesis by (simp add: updateTicket_def)
next
  case (Some ticket)
  note t = this
  show ?thesis
  proof (cases "findById p_id (t_project ticket) (projects s)")
    case None
    with t show ?thesis by (simp add: updateTicket_def)
  next
    case (Some project)
    have pop: "populateUser (s\<lparr>tickets := ts\<rparr>) r = populateUser s r" for ts r
      by (cases r) (simp_all add: populateUser_def)
    have idt: "t_id ticket = ticketId" using t by (simp add: findById_key)
    from t Some show ?thesis
      by (simp add: updateTicket_def Let_def save_ticket_def update_doc_flags pop
            denied_unpopulated saved_update_def [symmetric] saved_update_kept idt
            cong: option.case_cong if_cong)
  qed
qed

lemma updateTicket_Inl:
  assumes "updateTicket rnd now reqUser ticketId updates s = (s', Inl e)"
  shows "s' = s"
proof (cases "findById t_id ticketId (tickets s)")
  case None
  with assms show ?thesis by (simp add: updateTicket_stages)
next
  case (Some ticket)
  note t = this
  show ?thesis
  proof (cases "findById p_id (t_project ticket) (projects s)")
    case None
    with assms t show ?thesis by (simp add: updateTicket_stages)
  next
    case (Some project)
    with assms t show ?thesis
      by (simp add: updateTicket_stages split: if_splits option.splits)
  qed
qed

lemma updateTicket_Inr:
  assumes "updateTicket rnd now reqUser ticketId updates s = (s', Inr (t', ns))"
  shows "\<exists>t. findById t_id ticketId (tickets s) = Some t \<and>
           t' = saved_update now (u_id reqUser) updates t \<and>
           s' = s\<lparr>tickets := saveDoc t_id t' (tickets s)\<rparr> \<and>
           (\<exists>as. ns =
             (if t_status t \<noteq> t_status t'
              then [TicketStatusUpdateEmail ticketId
                     (sendTicketStatusUpdateEmail
                        (map_option select_name_email (populateUser s (t_assignedTo t')))
                        (map_option select_name_email (populateUser s (Some (t_createdBy t)))))]
              else []) @ as \<and> (\<forall>n \<in> set as. \<exists>i r. n = TicketAssignmentEmail i r))"
proof (cases "findById t_id ticketId (tickets s)")
  case None
  with assms show ?thesis by (simp add: updateTicket_stages)
next
  case (Some ticket)
  note t = this
  show ?thesis
  proof (cases "findById p_id (t_project ticket) (projects s)")
    case None
    with assms t show ?thesis by (simp add: updateTicket_stages)
  next
    case (Some project)
    with assms t show ?thesis
      by (simp add: updateTicket_stages split: if_splits option.splits) auto
  qed
qed

lemma createTicket_Inl:
  assumes "createTicket newId now reqUser body s = (s', Inl e)"
  shows "s' = s"
proof (cases "find (\<lambda>p. p_id p = in_project body \<and> p_isActive p) (projects s)")
  case None
  with assms show ?thesis by (simp add: createTicket_def)
next
  case (Some projectDoc)
  with assms show ?thesis
    by (simp add: createTicket_def Let_def save_ticket_def denied_unpopulated
          split: if_splits sum.splits)
qed

lemma createTicket_Inr:
  assumes "createTicket newId now reqUser body s = (s', Inr (t', ns))"
  shows "s' = s\<lparr>tickets := tickets s @ [t']\<rparr> \<and> t_id t' = newId \<and> t_status t' = OPEN \<and>
         t_resolvedAt t' = None \<and> t_closedAt t' = None \<and> t_createdBy t' = u_id reqUser \<and>
         t_project t' = in_project body \<and>
         t_assignedTo t' = Option.bind (in_assignedTo body) castObjectId \<and>
         t_statusHistory t' = [\<lparr>h_status = OPEN, h_changedBy = u_id reqUser, h_changedAt = now,
                                 h_comment = Some ''Ticket created''\<rparr>]"
proof (cases "find (\<lambda>p. p_id p = in_project body \<and> p_isActive p) (projects s)")
  case None
  with assms show ?thesis by (simp add: createTicket_def)
next
  case (Some projectDoc)
  with assms show ?thesis
    by (simp add: createTicket_def Let_def save_ticket_def pre_save_unmodified stamp_def
          denied_unpopulated split: if_splits sum.splits) auto
qed

lemma assignTicket_Inl:
  assumes "assignTicket now reqUser ticketId userId s = (s', Inl e)"
  shows "s' = s"
proof (cases "findById t_id ticketId (tickets s)")
  case None
  with assms show ?thesis by (simp add: assignTicket_def)
next
  case (Some ticket)
  note t = this
  show ?thesis
  proof (cases "findById p_id (t_project ticket) (projects s)")
    case None
    with assms t show ?thesis by (simp add: assignTicket_def)
  next
    case (Some project)
    with assms t show ?thesis
      by (simp add: assignTicket_def Let_def save_ticket_def denied_unpopulated
            split: if_splits sum.splits)
  qed
qed

lemma assignTicket_Inr:
  assumes "assignTicket now reqUser ticketId userId s = (s', Inr (t', ns))"
  shows "\<exists>t au i. findById t_id ticketId (tickets s) = Some t \<and>
           castObjectId userId = Some i \<and>
           find (\<lambda>u. u_id u = i \<and> u_isActive u) (users s) = Some au \<and>
           t' = (if t_assignedTo t = Some i then t
                 else t\<lparr>t_assignedTo := Some i, t_updatedAt := now\<rparr>) \<and>
           s' = s\<lparr>tickets := saveDoc t_id t' (tickets s)\<rparr> \<and>
           ns = (if userId \<noteq> toHexString (u_id reqUser)
                 then [TicketAssignmentEmail ticketId (u_email au)] else [])"
proof (cases "findById t_id ticketId (tickets s)")
  case None
  with assms show ?thesis by (simp add: assignTicket_def)
next
  case (Some ticket)
  note t = this
  then have idt: "t_id ticket = ticketId" by (simp add: findById_key)
  show ?thesis
  proof (cases "findById p_id (t_project ticket) (projects s)")
    case None
    with assms t show ?thesis by (simp add: assignTicket_def)
  next
    case (Some project)
    show ?thesis
    proof (cases "verifyAssignee ''User not found or inactive''
                    ''User does not have access to this project'' reqUser project userId s")
      case (Inl e)
      with assms t Some show ?thesis
        by (simp add: assignTicket_def Let_def denied_unpopulated split: if_splits)
    next
      case (Inr au)
      from verifyAssignee_Inr [OF Inr] obtain i where
        i: "castObjectId userId = Some i"
           "find (\<lambda>u. u_id u = i \<and> u_isActive u) (users s) = Some au"
        by blast
      from assms t Some Inr i idt show ?thesis
        by (simp add: assignTicket_def Let_def save_ticket_def saved_assignment
              denied_unpopulated split: if_splits) auto
    qed
  qed
qed

lemma unassignTicket_Inl:
  assumes "unassignTicket now reqUser ticketId s = (s', Inl e)"
  shows "s' = s"
proof (cases "findById t_id ticketId (tickets s)")
  case None
  with assms show ?thesis by (simp add: unassignTicket_def)
next
  case (Some ticket)
  note t = this
  show ?thesis
  proof (cases "findById p_id (t_project ticket) (projects s)")
    case None
    with assms t show ?thesis by (simp add: unassignTicket_def)
  next
    case (Some project)
    with assms t show ?thesis
      by (simp add: unassignTicket_def Let_def save_ticket_def denied_unpopulated
            split: if_splits)
  qed
qed

lemma unassignTicket_Inr:
  assumes "unassignTicket now reqUser ticketId s = (s', Inr (t', ns))"
  shows "\<exists>t. findById t_id ticketId (tickets s) = Some t \<and>
           t' = (if t_assignedTo t = None then t
                 else t\<lparr>t_assignedTo := None, t_updatedAt := now\<rparr>) \<and>
           s' = s\<lparr>tickets := saveDoc t_id t' (tickets s)\<rparr> \<and> ns = []"
proof (cases "findById t_id ticketId (tickets s)")
  case None
  with assms show ?thesis by (simp add: unassignTicket_def)
next
  case (Some ticket)
  note t = this
  show ?thesis
  proof (cases "findById p_id (t_project ticket) (projects s)")
    case None
    with assms t show ?thesis by (simp add: unassignTicket_def)
  next
    case (Some project)
    with assms t show ?thesis
      by (simp add: unassignTicket_def Let_def save_ticket_def saved_assignment
            denied_unpopulated split: if_splits) auto
  qed
qed

lemma timestamps_ok_saved_update:
  "timestamps_ok t \<Longrightarrow> timestamps_ok (saved_update now a u t)"
proof (cases "status_changes u t")
  case False
  assume "timestamps_ok t"
  with False show ?thesis
    by (cases "upd_status u")
       (simp_all add: timestamps_ok_def saved_update_status saved_update_resolvedAt
          saved_update_closedAt status_changes_def)
next
  case True
  then obtain v where "upd_status u = Some v"
    by (cases "upd_status u") (simp_all add: status_changes_def)
  with True show ?thesis
    by (cases v; cases "t_resolvedAt t"; cases "t_closedAt t")
       (simp_all add: timestamps_ok_def saved_update_status saved_update_resolvedAt
          saved_update_closedAt)
qed

lemma timestamps_ok_assignedTo:
  "timestamps_ok (if t_assignedTo t = a then t else t\<lparr>t_assignedTo := a, t_updatedAt := now\<rparr>)
     = timestamps_ok t"
  by (simp add: timestamps_ok_def)

section \<open>Access control evaluator\<close>

text \<open>
  C10. \<open>hasAccess\<close> is antitone in the required level, on every project document,
  populated or not, and for every id, given as an ObjectId or as a string: access at MANAGER
  implies access at CONTRIBUTOR, and access at CONTRIBUTOR implies access at VIEWER.
\<close>

theorem hasAccess_antitone:
  "(hasAccess P U MANAGER = Inr True \<longrightarrow> hasAccess P U CONTRIBUTOR = Inr True) \<and>
   (hasAccess P U CONTRIBUTOR = Inr True \<longrightarrow> hasAccess P U VIEWER = Inr True)"
proof -
  have "roleHierarchy r \<ge> roleHierarchy MANAGER \<Longrightarrow> roleHierarchy r \<ge> roleHierarchy CONTRIBUTOR"
    for r by (cases r) simp_all
  moreover have "roleHierarchy r \<ge> roleHierarchy VIEWER" for r
    by (cases r) simp_all
  ultimately show ?thesis
    by (auto simp: hasAccess_def split: sum.splits option.splits if_splits)
qed

theorem hasAccess_antitone_witness:
  "hasAccess (unpopulated ex_project) (IdObject id_dave) MANAGER = Inr True \<and>
   hasAccess (unpopulated ex_project) (IdObject id_dave) CONTRIBUTOR = Inr True \<and>
   hasAccess (unpopulated ex_project) (IdObject id_dave) VIEWER = Inr True"
proof -
  have m: "hasAccess (unpopulated ex_project) (IdObject id_dave) MANAGER = Inr True"
    by (simp add: hasAccess_def unpopulated_def ex_defs)
  from hasAccess_antitone [of "unpopulated ex_project" "IdObject id_dave"] m
  have c: "hasAccess (unpopulated ex_project) (IdObject id_dave) CONTRIBUTOR = Inr True"
    by blast
  from hasAccess_antitone [of "unpopulated ex_project" "IdObject id_dave"] c
  have "hasAccess (unpopulated ex_project) (IdObject id_dave) VIEWER = Inr True"
    by blast
  with m c show ?thesis by blast
qed

text \<open>
  C1. The claim has \<open>hasAccess\<close> return true for the creator of the project, and for a
  member decide by the rank of the member's role. The method compares the \<open>toString()\<close>
  of \<open>createdBy\<close> and of each member's \<open>user\<close> with the \<open>toString()\<close> of the id it is
  given. \<open>getProjectById\<close> calls it on the project it has populated, where these paths
  hold user documents: on that document the creator (Ada) and a member (Alice, CONTRIBUTOR)
  are both refused at level VIEWER, and Alice's request for the project is answered 403. On
  the project as stored Alice has access at VIEWER; given her id as a body spells it in upper
  case, which the query for the user accepts, the method refuses her.
\<close>

theorem hasAccess_refuses_creator_and_member:
  "p_createdBy ex_project = id_ada \<and>
   hasAccess (populate_project ex_rendering ex_store ex_project) (IdObject id_ada) VIEWER =
     Inr False \<and>
   map m_user (p_members ex_project) = [id_alice, id_bob, id_dave] \<and>
   hasAccess (populate_project ex_rendering ex_store ex_project) (IdObject id_alice) VIEWER =
     Inr False \<and>
   getProjectById ex_rendering ex_alice id_project ex_store =
     Inl (ApiError ''Access denied to this project'' 403) \<and>
   hasAccess (unpopulated ex_project) (IdObject id_alice) VIEWER = Inr True \<and>
   castObjectId alice_upper_case = Some id_alice \<and>
   hasAccess (unpopulated ex_project) (IdString alice_upper_case) VIEWER = Inr False"
  by (simp add: getProjectById_def populate_project_def populate_path_def alice_upper_case_def
        eval_defs ex_defs)

section \<open>Ticket lifecycle\<close>

lemma handle_timestamps_ok:
  assumes "\<forall>t \<in> set (tickets s). timestamps_ok t"
  shows "\<forall>t \<in> set (tickets (handle rnd r s)). timestamps_ok t"
proof (cases r)
  case (CreateTicket newId now reqUser body)
  obtain s' res where res: "createTicket newId now reqUser body s = (s', res)"
    by (cases "createTicket newId now reqUser body s")
  show ?thesis
  proof (cases res)
    case (Inl e)
    with res have "s' = s" by (simp add: createTicket_Inl)
    with assms res CreateTicket show ?thesis by simp
  next
    case (Inr out)
    obtain t' ns where "out = (t', ns)" by (cases out)
    with res Inr have r: "createTicket newId now reqUser body s = (s', Inr (t', ns))" by simp
    from createTicket_Inr [OF r] have "timestamps_ok t'" "s' = s\<lparr>tickets := tickets s @ [t']\<rparr>"
      by (simp_all add: timestamps_ok_def)
    with assms r CreateTicket show ?thesis by simp
  qed
next
  case (UpdateTicket now reqUser ticketId updates)
  obtain s' res where res: "updateTicket rnd now reqUser ticketId updates s = (s', res)"
    by (cases "updateTicket rnd now reqUser ticketId updates s")
  show ?thesis
  proof (cases res)
    case (Inl e)
    with res have "s' = s" by (simp add: updateTicket_Inl)
    with assms res UpdateTicket show ?thesis by simp
  next
    case (Inr out)
    obtain t' ns where "out = (t', ns)" by (cases out)
    with res Inr have r: "updateTicket rnd now reqUser ticketId updates s = (s', Inr (t', ns))"
      by simp
    from updateTicket_Inr [OF r] obtain t where
      t: "findById t_id ticketId (tickets s) = Some t"
         "t' = saved_update now (u_id reqUser) updates t"
         "s' = s\<lparr>tickets := saveDoc t_id t' (tickets s)\<rparr>"
      by blast
    from t(1) assms have "timestamps_ok t" by (simp add: findById_key)
    with t(2) have "timestamps_ok t'" by (simp add: timestamps_ok_saved_update)
    with assms t(3) set_saveDoc [of t_id t' "tickets s"] have
      "\<forall>x \<in> set (tickets s'). timestamps_ok x" by auto
    with r UpdateTicket show ?thesis by simp
  qed
next
  case (AssignTicket now reqUser ticketId userId)
  obtain s' res where res: "assignTicket now reqUser ticketId userId s = (s', res)"
    by (cases "assignTicket now reqUser ticketId userId s")
  show ?thesis
  proof (cases res)
    case (Inl e)
    with res have "s' = s" by (simp add: assignTicket_Inl)
    with assms res AssignTicket show ?thesis by simp
  next
    case (Inr out)
    obtain t' ns where "out = (t', ns)" by (cases out)
    with res Inr have r: "assignTicket now reqUser ticketId userId s = (s', Inr (t', ns))"
      by simp
    from assignTicket_Inr [OF r] obtain t where
      t: "findById t_id ticketId (tickets s) = Some t"
         "t' = (if t_assignedTo t = castObjectId userId then t
               else t\<lparr>t_assignedTo := castObjectId userId, t_updatedAt := now\<rparr>)"
         "s' = s\<lparr>tickets := saveDoc t_id t' (tickets s)\<rparr>"
      by auto
    from t(1) assms have "timestamps_ok t" by (simp add: findById_key)
    with t(2) have "timestamps_ok t'" by (simp add: timestamps_ok_assignedTo)
    with assms t(3) set_saveDoc [of t_id t' "tickets s"] have
      "\<forall>x \<in> set (tickets s'). timestamps_ok x" by auto
    with r AssignTicket show ?thesis by simp
  qed
next
  case (UnassignTicket now reqUser ticketId)
  obtain s' res where res: "unassignTicket now reqUser ticketId s = (s', res)"
    by (cases "unassignTicket now reqUser ticketId s")
  show ?thesis
  proof (cases res)
    case (Inl e)
    with res have "s' = s" by (simp add: unassignTicket_Inl)
    with assms res UnassignTicket show ?thesis by simp
  next
    case (Inr out)
    obtain t' ns where "out = (t', ns)" by (cases out)
    with res Inr have r: "unassignTicket now reqUser ticketId s = (s', Inr (t', ns))"
      by simp
    from unassignTicket_Inr [OF r] obtain t where
      t: "findById t_id ticketId (tickets s) = Some t"
         "t' = (if t_assignedTo t = None then t
               else t\<lparr>t_assignedTo := None, t_updatedAt := now\<rparr>)"
         "s' = s\<lparr>tickets := saveDoc t_id t' (tickets s)\<rparr>"
      by blast
    from t(1) assms have "timestamps_ok t" by (simp add: findById_key)
    with t(2) have "timestamps_ok t'" by (simp add: timestamps_ok_assignedTo)
    with assms t(3) set_saveDoc [of t_id t' "tickets s"] have
      "\<forall>x \<in> set (tickets s'). timestamps_ok x" by auto
    with r UnassignTicket show ?thesis by simp
  qed
qed

lemma run_timestamps_ok:
  "\<forall>t \<in> set (tickets s). timestamps_ok t \<Longrightarrow> \<forall>t \<in> set (tickets (run rnd rs s)). timestamps_ok t"
proof (induction rs arbitrary: s)
  case Nil
  then show ?case by simp
next
  case (Cons r rs)
  from Cons.prems have "\<forall>t \<in> set (tickets (handle rnd r s)). timestamps_ok t"
    by (rule handle_timestamps_ok)
  then show ?case by (simp add: Cons.IH)
qed

text \<open>
  C2 as stated fails on a ticket that is closed after it was resolved. The claim has
  \<open>resolvedAt\<close> null in every status but RESOLVED; the hook clears \<open>resolvedAt\<close> only
  when the new status is neither RESOLVED nor CLOSED. Alice closes the resolved ticket
  at time 7; the saved ticket is CLOSED and still carries the \<open>resolvedAt\<close> of time 5.
\<close>

theorem resolvedAt_kept_on_close_counterexample:
  "t_status ex_ticket = RESOLVED \<and>
   updateTicket ex_rendering 7 ex_alice id_ticket ex_close ex_store =
     (ex_store\<lparr>tickets := [ex_closed_ticket, ex_open_ticket]\<rparr>,
      Inr (ex_closed_ticket,
           [TicketStatusUpdateEmail id_ticket [''bob@example.org'', ''alice@example.org'']])) \<and>
   t_status ex_closed_ticket = CLOSED \<and>
   t_resolvedAt ex_closed_ticket \<noteq> None"
  by (simp add: updateTicket_def eval_defs ex_defs)

text \<open>
  C2, as amended. Over every sequence of create, update, assign and unassign requests on a
  store whose tickets satisfy it (the empty store does), every stored ticket keeps the
  relation \<open>timestamps_ok\<close>: \<open>closedAt\<close> is non-null exactly when the status is CLOSED;
  \<open>resolvedAt\<close> is non-null when the status is RESOLVED and null when it is OPEN or
  IN\_PROGRESS. A saved update to CLOSED leaves \<open>resolvedAt\<close> as it was, so after a
  transition RESOLVED to CLOSED it is still non-null; a saved transition RESOLVED to OPEN
  leaves \<open>resolvedAt\<close> null.
\<close>

theorem timestamps_follow_status:
  "((\<forall>t \<in> set (tickets s). timestamps_ok t) \<longrightarrow>
      (\<forall>t \<in> set (tickets (run rnd rs s)). timestamps_ok t)) \<and>
   (upd_status u = Some CLOSED \<longrightarrow>
      t_status (saved_update now a u t) = CLOSED \<and>
      t_resolvedAt (saved_update now a u t) = t_resolvedAt t) \<and>
   (t_status t = RESOLVED \<and> timestamps_ok t \<and> upd_status u = Some CLOSED \<longrightarrow>
      t_resolvedAt (saved_update now a u t) \<noteq> None) \<and>
   (t_status t = RESOLVED \<and> upd_status u = Some OPEN \<longrightarrow>
      t_status (saved_update now a u t) = OPEN \<and>
      t_resolvedAt (saved_update now a u t) = None)"
proof (intro conjI impI)
  assume "\<forall>t \<in> set (tickets s). timestamps_ok t"
  then show "\<forall>t \<in> set (tickets (run rnd rs s)). timestamps_ok t"
    by (rule run_timestamps_ok)
next
  assume h: "upd_status u = Some CLOSED"
  then show "t_status (saved_update now a u t) = CLOSED"
    by (simp add: saved_update_status)
  from h show "t_resolvedAt (saved_update now a u t) = t_resolvedAt t"
    by (simp add: saved_update_resolvedAt)
next
  assume h: "t_status t = RESOLVED \<and> timestamps_ok t \<and> upd_status u = Some CLOSED"
  then show "t_resolvedAt (saved_update now a u t) \<noteq> None"
    by (simp add: saved_update_resolvedAt timestamps_ok_def)
next
  assume h: "t_status t = RESOLVED \<and> upd_status u = Some OPEN"
  then show "t_status (saved_update now a u t) = OPEN"
    by (simp add: saved_update_status)
  from h show "t_resolvedAt (saved_update now a u t) = None"
    by (simp add: saved_update_resolvedAt status_changes_def)
qed

theorem timestamps_follow_status_witness:
  "timestamps_ok ex_closed_ticket \<and>
   t_resolvedAt (saved_update 7 id_alice ex_close ex_ticket) = Some 5 \<and>
   t_resolvedAt (saved_update 8 id_alice ex_reopen ex_ticket) = None"
proof -
  have ok: "\<forall>t \<in> set (tickets ex_store). timestamps_ok t"
    by (simp add: ex_defs timestamps_ok_def)
  have ran: "tickets (run ex_rendering [UpdateTicket 7 ex_alice id_ticket ex_close] ex_store) =
      [ex_closed_ticket, ex_open_ticket]"
    by (simp add: updateTicket_def eval_defs ex_defs)
  have pre: "t_status ex_ticket = RESOLVED \<and> timestamps_ok ex_ticket \<and>
      upd_status ex_close = Some CLOSED"
    by (simp add: ex_defs timestamps_ok_def)
  have pre': "t_status ex_ticket = RESOLVED \<and> upd_status ex_reopen = Some OPEN"
    by (simp add: ex_defs ex_reopen_def)
  note inst = timestamps_follow_status
    [where s = ex_store and rnd = ex_rendering
       and rs = "[UpdateTicket 7 ex_alice id_ticket ex_close]" and t = ex_ticket]
  from inst [where u = ex_close and now = 7 and a = id_alice] ok ran
  have a: "timestamps_ok ex_closed_ticket" by simp
  from inst [where u = ex_close and now = 7 and a = id_alice] pre
  have "t_resolvedAt (saved_update 7 id_alice ex_close ex_ticket) = t_resolvedAt ex_ticket" by blast
  then have b: "t_resolvedAt (saved_update 7 id_alice ex_close ex_ticket) = Some 5"
    by (simp add: ex_ticket_def)
  from inst [where u = ex_reopen and now = 8 and a = id_alice] pre'
  have c: "t_resolvedAt (saved_update 8 id_alice ex_reopen ex_ticket) = None" by blast
  from a b c show ?thesis by blast
qed

lemma findById_saveDoc_other:
  "key d' \<noteq> i \<Longrightarrow> findById key i (saveDoc key d' docs) = findById key i docs"
  by (induction docs) (auto simp: findById_def saveDoc_def)

lemma findById_append:
  "findById key i docs = Some d \<Longrightarrow> findById key i (docs @ ys) = Some d"
  by (induction docs) (auto simp: findById_def split: if_splits)


text \<open>
  Every request leaves, for each stored ticket, a stored ticket of the same id whose status
  history starts with the history that was there.
\<close>

lemma handle_history_kept:
  assumes found: "findById t_id i (tickets s) = Some t"
  shows "\<exists>t' es. findById t_id i (tickets (handle rnd r s)) = Some t' \<and>
           t_statusHistory t' = t_statusHistory t @ es"
proof -
  from found findById_key [of t_id i "tickets s" t]
  have mem: "t \<in> set (tickets s)" "t_id t = i" by simp_all
  have saved: "\<exists>x es. findById t_id i (tickets (s\<lparr>tickets := saveDoc t_id t' (tickets s)\<rparr>)) = Some x \<and>
           t_statusHistory x = t_statusHistory t @ es"
    if old: "findById t_id j (tickets s) = Some u" and id: "t_id t' = j"
      and hist: "\<exists>es. t_statusHistory t' = t_statusHistory u @ es" for t' j u
  proof (cases "j = i")
    case True
    with old found have "u = t" by simp
    with True id mem hist show ?thesis by (simp add: findById_saveDoc)
  next
    case False
    with id found show ?thesis by (simp add: findById_saveDoc_other)
  qed
  show ?thesis
  proof (cases r)
    case (CreateTicket newId now reqUser body)
    obtain s' res where res: "createTicket newId now reqUser body s = (s', res)"
      by (cases "createTicket newId now reqUser body s")
    show ?thesis
    proof (cases res)
      case (Inl e)
      with res have "s' = s" by (simp add: createTicket_Inl)
      with found res CreateTicket show ?thesis by simp
    next
      case (Inr out)
      obtain t' ns where "out = (t', ns)" by (cases out)
      with res Inr have r: "createTicket newId now reqUser body s = (s', Inr (t', ns))" by simp
      from createTicket_Inr [OF r] have "s' = s\<lparr>tickets := tickets s @ [t']\<rparr>" by simp
      with found r CreateTicket show ?thesis by (simp add: findById_append)
    qed
  next
    case (UpdateTicket now reqUser ticketId updates)
    obtain s' res where res: "updateTicket rnd now reqUser ticketId updates s = (s', res)"
      by (cases "updateTicket rnd now reqUser ticketId updates s")
    show ?thesis
    proof (cases res)
      case (Inl e)
      with res have "s' = s" by (simp add: updateTicket_Inl)
      with found res UpdateTicket show ?thesis by simp
    next
      case (Inr out)
      obtain t' ns where "out = (t', ns)" by (cases out)
      with res Inr have r: "updateTicket rnd now reqUser ticketId updates s = (s', Inr (t', ns))"
        by simp
      from updateTicket_Inr [OF r] obtain u where
        u: "findById t_id ticketId (tickets s) = Some u"
           "t' = saved_update now (u_id reqUser) updates u"
           "s' = s\<lparr>tickets := saveDoc t_id t' (tickets s)\<rparr>"
        by blast
      from u(1) findById_key [of t_id ticketId "tickets s" u] have "t_id u = ticketId" by simp
      with u(2) have id: "t_id t' = ticketId" by (simp add: saved_update_kept)
      from u(2) have "\<exists>es. t_statusHistory t' = t_statusHistory u @ es"
        by (simp add: saved_update_history)
      from saved [OF u(1) id this] u(3) r UpdateTicket show ?thesis by simp
    qed
  next
    case (AssignTicket now reqUser ticketId userId)
    obtain s' res where res: "assignTicket now reqUser ticketId userId s = (s', res)"
      by (cases "assignTicket now reqUser ticketId userId s")
    show ?thesis
    proof (cases res)
      case (Inl e)
      with res have "s' = s" by (simp add: assignTicket_Inl)
      with found res AssignTicket show ?thesis by simp
    next
      case (Inr out)
      obtain t' ns where "out = (t', ns)" by (cases out)
      with res Inr have r: "assignTicket now reqUser ticketId userId s = (s', Inr (t', ns))"
        by simp
      from assignTicket_Inr [OF r] obtain u where
        u: "findById t_id ticketId (tickets s) = Some u"
           "t' = (if t_assignedTo u = castObjectId userId then u
                  else u\<lparr>t_assignedTo := castObjectId userId, t_updatedAt := now\<rparr>)"
           "s' = s\<lparr>tickets := saveDoc t_id t' (tickets s)\<rparr>"
        by auto
      from u(1) findById_key [of t_id ticketId "tickets s" u] have "t_id u = ticketId" by simp
      with u(2) have id: "t_id t' = ticketId" by simp
      from u(2) have "\<exists>es. t_statusHistory t' = t_statusHistory u @ es" by simp
      from saved [OF u(1) id this] u(3) r AssignTicket show ?thesis by simp
    qed
  next
    case (UnassignTicket now reqUser ticketId)
    obtain s' res where res: "unassignTicket now reqUser ticketId s = (s', res)"
      by (cases "unassignTicket now reqUser ticketId s")
    show ?thesis
    proof (cases res)
      case (Inl e)
      with res have "s' = s" by (simp add: unassignTicket_Inl)
      with found res UnassignTicket show ?thesis by simp
    next
      case (Inr out)
      obtain t' ns where "out = (t', ns)" by (cases out)
      with res Inr have r: "unassignTicket now reqUser ticketId s = (s', Inr (t', ns))"
        by simp
      from unassignTicket_Inr [OF r] obtain u where
        u: "findById t_id ticketId (tickets s) = Some u"
           "t' = (if t_assignedTo u = None then u
                  else u\<lparr>t_assignedTo := None, t_updatedAt := now\<rparr>)"
           "s' = s\<lparr>tickets := saveDoc t_id t' (tickets s)\<rparr>"
        by blast
      from u(1) findById_key [of t_id ticketId "tickets s" u] have "t_id u = ticketId" by simp
      with u(2) have id: "t_id t' = ticketId" by simp
      from u(2) have "\<exists>es. t_statusHistory t' = t_statusHistory u @ es" by simp
      from saved [OF u(1) id this] u(3) r UnassignTicket show ?thesis by simp
    qed
  qed
qed

text \<open>
  C3. On an existing ticket, a successful update whose body carries a status other than the
  ticket's stores the ticket with that status and with exactly one more \<open>statusHistory\<close>
  entry, at the end, carrying the new status, the acting user and the time of the save; a
  successful update whose body carries no status, or the status the ticket has, and a
  successful assign or unassign store the ticket with its status and its \<open>statusHistory\<close>
  as they were. Whatever a create, update, assign or unassign request does, each stored
  ticket is stored afterwards with the entries it had, in place, at the start of its
  history.
\<close>

theorem statusHistory_appended:
  "(updateTicket rnd now reqUser ticketId updates s = (s', Inr (t', ns)) \<and>
    findById t_id ticketId (tickets s) = Some t \<longrightarrow>
      findById t_id ticketId (tickets s') = Some t' \<and>
      (\<forall>v. upd_status updates = Some v \<and> v \<noteq> t_status t \<longrightarrow>
         t_status t' = v \<and>
         t_statusHistory t' =
           t_statusHistory t @
             [\<lparr>h_status = v, h_changedBy = u_id reqUser, h_changedAt = now,
               h_comment = None\<rparr>]) \<and>
      (upd_status updates = None \<or> upd_status updates = Some (t_status t) \<longrightarrow>
         t_status t' = t_status t \<and> t_statusHistory t' = t_statusHistory t)) \<and>
   (assignTicket now reqUser ticketId userId s = (s', Inr (t', ns)) \<and>
    findById t_id ticketId (tickets s) = Some t \<longrightarrow>
      findById t_id ticketId (tickets s') = Some t' \<and>
      t_status t' = t_status t \<and> t_statusHistory t' = t_statusHistory t) \<and>
   (unassignTicket now reqUser ticketId s = (s', Inr (t', ns)) \<and>
    findById t_id ticketId (tickets s) = Some t \<longrightarrow>
      findById t_id ticketId (tickets s') = Some t' \<and>
      t_status t' = t_status t \<and> t_statusHistory t' = t_statusHistory t) \<and>
   (findById t_id i (tickets s) = Some t \<longrightarrow>
      (\<exists>x es. findById t_id i (tickets (handle rnd r s)) = Some x \<and>
         t_statusHistory x = t_statusHistory t @ es))"
proof (intro conjI impI allI)
  assume h: "updateTicket rnd now reqUser ticketId updates s = (s', Inr (t', ns)) \<and>
    findById t_id ticketId (tickets s) = Some t"
  with updateTicket_Inr [of rnd now reqUser ticketId updates s s' t' ns] have
    eq: "t' = saved_update now (u_id reqUser) updates t"
    and st: "s' = s\<lparr>tickets := saveDoc t_id t' (tickets s)\<rparr>" by auto
  from h findById_key [of t_id ticketId "tickets s" t]
  have mem: "t \<in> set (tickets s)" "t_id t = ticketId" by simp_all
  from eq mem have "t_id t' = ticketId" by (simp add: saved_update_kept)
  with mem st show "findById t_id ticketId (tickets s') = Some t'"
    by (simp add: findById_saveDoc)
  {
    fix v
    assume v: "upd_status updates = Some v \<and> v \<noteq> t_status t"
    with eq show "t_status t' = v" by (simp add: saved_update_status)
    from v eq show "t_statusHistory t' =
           t_statusHistory t @
             [\<lparr>h_status = v, h_changedBy = u_id reqUser, h_changedAt = now,
               h_comment = None\<rparr>]"
      by (simp add: saved_update_history saved_update_status status_changes_def)
  }
  {
    assume n: "upd_status updates = None \<or> upd_status updates = Some (t_status t)"
    with eq show "t_status t' = t_status t" by (auto simp: saved_update_status)
    from n eq show "t_statusHistory t' = t_statusHistory t"
      by (auto simp: saved_update_history status_changes_def)
  }
next
  assume h: "assignTicket now reqUser ticketId userId s = (s', Inr (t', ns)) \<and>
    findById t_id ticketId (tickets s) = Some t"
  with assignTicket_Inr [of now reqUser ticketId userId s s' t' ns] have
    eq: "t' = (if t_assignedTo t = castObjectId userId then t
               else t\<lparr>t_assignedTo := castObjectId userId, t_updatedAt := now\<rparr>)"
    and st: "s' = s\<lparr>tickets := saveDoc t_id t' (tickets s)\<rparr>" by auto
  from h findById_key [of t_id ticketId "tickets s" t]
  have mem: "t \<in> set (tickets s)" "t_id t = ticketId" by simp_all
  from eq mem have "t_id t' = ticketId" by simp
  with mem st show "findById t_id ticketId (tickets s') = Some t'"
    by (simp add: findById_saveDoc)
  from eq show "t_status t' = t_status t" by simp
  from eq show "t_statusHistory t' = t_statusHistory t" by simp
next
  assume h: "unassignTicket now reqUser ticketId s = (s', Inr (t', ns)) \<and>
    findById t_id ticketId (tickets s) = Some t"
  with unassignTicket_Inr [of now reqUser ticketId s s' t' ns] have
    eq: "t' = (if t_assignedTo t = None then t
               else t\<lparr>t_assignedTo := None, t_updatedAt := now\<rparr>)"
    and st: "s' = s\<lparr>tickets := saveDoc t_id t' (tickets s)\<rparr>" by auto
  from h findById_key [of t_id ticketId "tickets s" t]
  have mem: "t \<in> set (tickets s)" "t_id t = ticketId" by simp_all
  from eq mem have "t_id t' = ticketId" by simp
  with mem st show "findById t_id ticketId (tickets s') = Some t'"
    by (simp add: findById_saveDoc)
  from eq show "t_status t' = t_status t" by simp
  from eq show "t_statusHistory t' = t_statusHistory t" by simp
next
  assume "findById t_id i (tickets s) = Some t"
  then show "\<exists>x es. findById t_id i (tickets (handle rnd r s)) = Some x \<and>
         t_statusHistory x = t_statusHistory t @ es"
    by (rule handle_history_kept)
qed

theorem statusHistory_appended_witness:
  "snd (updateTicket ex_rendering 7 ex_alice id_ticket ex_close ex_store) =
     Inr (ex_closed_ticket,
          [TicketStatusUpdateEmail id_ticket [''bob@example.org'', ''alice@example.org'']]) \<and>
   findById t_id id_ticket
     (tickets (fst (updateTicket ex_rendering 7 ex_alice id_ticket ex_close ex_store))) =
     Some ex_closed_ticket \<and>
   t_status ex_closed_ticket = CLOSED \<and>
   t_statusHistory ex_closed_ticket =
     t_statusHistory ex_ticket @
       [\<lparr>h_status = CLOSED, h_changedBy = u_id ex_alice, h_changedAt = 7, h_comment = None\<rparr>] \<and>
   snd (updateTicket ex_rendering 7 ex_alice id_ticket ex_retitle ex_store) =
     Inr (ex_retitled_ticket, []) \<and>
   t_statusHistory ex_retitled_ticket = t_statusHistory ex_ticket \<and>
   snd (assignTicket 9 ex_alice id_open_ticket (toHexString id_bob) ex_store) =
     Inr (ex_assigned_ticket, [TicketAssignmentEmail id_open_ticket ''bob@example.org'']) \<and>
   t_statusHistory ex_assigned_ticket = t_statusHistory ex_open_ticket \<and>
   snd (unassignTicket 9 ex_alice id_ticket ex_store) = Inr (ex_unassigned_ticket, []) \<and>
   t_statusHistory ex_unassigned_ticket = t_statusHistory ex_ticket \<and>
   (\<exists>x es. findById t_id id_ticket
              (tickets (handle ex_rendering (UnassignTicket 9 ex_alice id_ticket) ex_store)) =
              Some x \<and>
            t_statusHistory x = t_statusHistory ex_ticket @ es)"
proof -
  have upd: "updateTicket ex_rendering 7 ex_alice id_ticket ex_close ex_store =
     (ex_store\<lparr>tickets := [ex_closed_ticket, ex_open_ticket]\<rparr>,
      Inr (ex_closed_ticket,
           [TicketStatusUpdateEmail id_ticket [''bob@example.org'', ''alice@example.org'']])) \<and>
     findById t_id id_ticket (tickets ex_store) = Some ex_ticket"
    by (simp add: updateTicket_def eval_defs ex_defs)
  have ret: "updateTicket ex_rendering 7 ex_alice id_ticket ex_retitle ex_store =
     (ex_store\<lparr>tickets := [ex_retitled_ticket, ex_open_ticket]\<rparr>,
      Inr (ex_retitled_ticket, [])) \<and>
     findById t_id id_ticket (tickets ex_store) = Some ex_ticket"
    by (simp add: updateTicket_def eval_defs ex_defs ex_retitle_def ex_retitled_ticket_def)
  have asg: "assignTicket 9 ex_alice id_open_ticket (toHexString id_bob) ex_store =
     (ex_store\<lparr>tickets := [ex_ticket, ex_assigned_ticket]\<rparr>,
      Inr (ex_assigned_ticket, [TicketAssignmentEmail id_open_ticket ''bob@example.org''])) \<and>
     findById t_id id_open_ticket (tickets ex_store) = Some ex_open_ticket"
    by (simp add: assignTicket_def eval_defs ex_defs ex_assigned_ticket_def)
  have una: "unassignTicket 9 ex_alice id_ticket ex_store =
     (ex_store\<lparr>tickets := [ex_unassigned_ticket, ex_open_ticket]\<rparr>,
      Inr (ex_unassigned_ticket, [])) \<and>
     findById t_id id_ticket (tickets ex_store) = Some ex_ticket"
    by (simp add: unassignTicket_def eval_defs ex_defs ex_unassigned_ticket_def)
  have changed: "upd_status ex_close = Some CLOSED \<and> CLOSED \<noteq> t_status ex_ticket"
    by (simp add: ex_defs)
  have unchanged: "upd_status ex_retitle = None"
    by (simp add: ex_retitle_def no_updates_def)
  from statusHistory_appended
    [where rnd = ex_rendering and now = 7 and reqUser = ex_alice and ticketId = id_ticket
       and updates = ex_close and s = ex_store
       and s' = "ex_store\<lparr>tickets := [ex_closed_ticket, ex_open_ticket]\<rparr>"
       and t' = ex_closed_ticket
       and ns = "[TicketStatusUpdateEmail id_ticket
                    [''bob@example.org'', ''alice@example.org'']]"
       and t = ex_ticket]
    upd changed
  have a: "findById t_id id_ticket
       (tickets (ex_store\<lparr>tickets := [ex_closed_ticket, ex_open_ticket]\<rparr>)) =
       Some ex_closed_ticket \<and>
     t_status ex_closed_ticket = CLOSED \<and>
     t_statusHistory ex_closed_ticket =
       t_statusHistory ex_ticket @
         [\<lparr>h_status = CLOSED, h_changedBy = u_id ex_alice, h_changedAt = 7,
           h_comment = None\<rparr>]"
    by blast
  from statusHistory_appended
    [where rnd = ex_rendering and now = 7 and reqUser = ex_alice and ticketId = id_ticket
       and updates = ex_retitle and s = ex_store
       and s' = "ex_store\<lparr>tickets := [ex_retitled_ticket, ex_open_ticket]\<rparr>"
       and t' = ex_retitled_ticket and ns = "[]" and t = ex_ticket]
    ret unchanged
  have b: "t_statusHistory ex_retitled_ticket = t_statusHistory ex_ticket"
    by blast
  from statusHistory_appended
    [where now = 9 and reqUser = ex_alice and ticketId = id_open_ticket
       and userId = "toHexString id_bob" and s = ex_store
       and s' = "ex_store\<lparr>tickets := [ex_ticket, ex_assigned_ticket]\<rparr>"
       and t' = ex_assigned_ticket
       and ns = "[TicketAssignmentEmail id_open_ticket ''bob@example.org'']"
       and t = ex_open_ticket]
    asg
  have c: "t_statusHistory ex_assigned_ticket = t_statusHistory ex_open_ticket" by blast
  from statusHistory_appended
    [where now = 9 and reqUser = ex_alice and ticketId = id_ticket and s = ex_store
       and s' = "ex_store\<lparr>tickets := [ex_unassigned_ticket, ex_open_ticket]\<rparr>"
       and t' = ex_unassigned_ticket and ns = "[]" and t = ex_ticket]
    una
  have d: "t_statusHistory ex_unassigned_ticket = t_statusHistory ex_ticket" by blast
  from upd have e: "snd (updateTicket ex_rendering 7 ex_alice id_ticket ex_close ex_store) =
     Inr (ex_closed_ticket,
          [TicketStatusUpdateEmail id_ticket [''bob@example.org'', ''alice@example.org'']])"
    and f: "fst (updateTicket ex_rendering 7 ex_alice id_ticket ex_close ex_store) =
      ex_store\<lparr>tickets := [ex_closed_ticket, ex_open_ticket]\<rparr>"
    by simp_all
  from ret have g: "snd (updateTicket ex_rendering 7 ex_alice id_ticket ex_retitle ex_store) =
     Inr (ex_retitled_ticket, [])" by simp
  from asg have h: "snd (assignTicket 9 ex_alice id_open_ticket (toHexString id_bob) ex_store) =
     Inr (ex_assigned_ticket, [TicketAssignmentEmail id_open_ticket ''bob@example.org''])"
    by simp
  from una have i: "snd (unassignTicket 9 ex_alice id_ticket ex_store) =
     Inr (ex_unassigned_ticket, [])" by simp
  from statusHistory_appended
    [where s = ex_store and i = id_ticket and t = ex_ticket and rnd = ex_rendering
       and r = "UnassignTicket 9 ex_alice id_ticket"]
    una
  have j: "\<exists>x es. findById t_id id_ticket
              (tickets (handle ex_rendering (UnassignTicket 9 ex_alice id_ticket) ex_store)) =
              Some x \<and>
            t_statusHistory x = t_statusHistory ex_ticket @ es"
    by blast
  from a b c d e g h i j show ?thesis unfolding f by blast
qed




section \<open>Notification trigger\<close>

lemma recipients_spec:
  "distinct (sendTicketStatusUpdateEmail A C) \<and>
   set (sendTicketStatusUpdateEmail A C) =
     set_option (map_option r_email A) \<union> set_option (map_option r_email C)"
  by (cases A; cases C) (auto simp: sendTicketStatusUpdateEmail_def Let_def)

lemma populated_emails:
  "set_option (map_option r_email (map_option select_name_email (populateUser s r))) =
     {u_email u |u. populateUser s r = Some u}"
  by (cases "populateUser s r") (simp_all add: select_name_email_def)

lemma populateUser_tickets [simp]:
  "populateUser (s\<lparr>tickets := ts\<rparr>) r = populateUser s r"
  by (cases r) (simp_all add: populateUser_def)

text \<open>
  C6. A successful update hands a status-change notification to the email service exactly
  when the status after the save differs from the status before it. The request is for the
  updated ticket, and its recipients are the addresses of the users that the ticket's
  \<open>assignedTo\<close> and \<open>createdBy\<close> resolve to, each once: a reference that is null or does
  not resolve contributes nothing, and an address shared by both appears once.
\<close>

theorem status_notification:
  "updateTicket rnd now reqUser ticketId updates s = (s', Inr (t', ns)) \<and>
   findById t_id ticketId (tickets s) = Some t \<longrightarrow>
     ((\<exists>rs. TicketStatusUpdateEmail ticketId rs \<in> set ns) = (t_status t' \<noteq> t_status t)) \<and>
     (\<forall>i rs. TicketStatusUpdateEmail i rs \<in> set ns \<longrightarrow>
        i = ticketId \<and> distinct rs \<and>
        set rs = {u_email u |u. populateUser s' (t_assignedTo t') = Some u} \<union>
                 {u_email u |u. populateUser s' (Some (t_createdBy t')) = Some u})"
proof
  assume h: "updateTicket rnd now reqUser ticketId updates s = (s', Inr (t', ns)) \<and>
    findById t_id ticketId (tickets s) = Some t"
  with updateTicket_Inr [of rnd now reqUser ticketId updates s s' t' ns] obtain as where
    eq: "t' = saved_update now (u_id reqUser) updates t"
    and st: "s' = s\<lparr>tickets := saveDoc t_id t' (tickets s)\<rparr>"
    and ns: "ns =
       (if t_status t \<noteq> t_status t'
        then [TicketStatusUpdateEmail ticketId
               (sendTicketStatusUpdateEmail
                  (map_option select_name_email (populateUser s (t_assignedTo t')))
                  (map_option select_name_email (populateUser s (Some (t_createdBy t)))))]
        else []) @ as"
    and as: "\<forall>n \<in> set as. \<exists>i r. n = TicketAssignmentEmail i r"
    by auto
  from as have no: "TicketStatusUpdateEmail i rs \<notin> set as" for i rs by auto
  from eq have cb: "t_createdBy t' = t_createdBy t" by (simp add: saved_update_kept)
  show "((\<exists>rs. TicketStatusUpdateEmail ticketId rs \<in> set ns) = (t_status t' \<noteq> t_status t)) \<and>
     (\<forall>i rs. TicketStatusUpdateEmail i rs \<in> set ns \<longrightarrow>
        i = ticketId \<and> distinct rs \<and>
        set rs = {u_email u |u. populateUser s' (t_assignedTo t') = Some u} \<union>
                 {u_email u |u. populateUser s' (Some (t_createdBy t')) = Some u})"
  proof (cases "t_status t \<noteq> t_status t'")
    case False
    with ns no show ?thesis by auto
  next
    case True
    with ns no st cb recipients_spec
      [of "map_option select_name_email (populateUser s (t_assignedTo t'))"
          "map_option select_name_email (populateUser s (Some (t_createdBy t)))"]
    show ?thesis
      by (auto simp: populated_emails)
  qed
qed

theorem status_notification_witness:
  "snd (updateTicket ex_rendering 7 ex_alice id_ticket ex_close ex_store) =
     Inr (ex_closed_ticket,
          [TicketStatusUpdateEmail id_ticket [''bob@example.org'', ''alice@example.org'']]) \<and>
   t_status ex_closed_ticket \<noteq> t_status ex_ticket \<and>
   distinct [''bob@example.org'', ''alice@example.org''] \<and>
   set [''bob@example.org'', ''alice@example.org''] =
     {u_email u |u. populateUser (ex_store\<lparr>tickets := [ex_closed_ticket, ex_open_ticket]\<rparr>)
                       (t_assignedTo ex_closed_ticket) = Some u} \<union>
     {u_email u |u. populateUser (ex_store\<lparr>tickets := [ex_closed_ticket, ex_open_ticket]\<rparr>)
                       (Some (t_createdBy ex_closed_ticket)) = Some u}"
proof -
  have upd: "updateTicket ex_rendering 7 ex_alice id_ticket ex_close ex_store =
     (ex_store\<lparr>tickets := [ex_closed_ticket, ex_open_ticket]\<rparr>,
      Inr (ex_closed_ticket,
           [TicketStatusUpdateEmail id_ticket [''bob@example.org'', ''alice@example.org'']])) \<and>
     findById t_id id_ticket (tickets ex_store) = Some ex_ticket"
    by (simp add: updateTicket_def eval_defs ex_defs)
  note inst = status_notification
    [of ex_rendering 7 ex_alice id_ticket ex_close ex_store
        "ex_store\<lparr>tickets := [ex_closed_ticket, ex_open_ticket]\<rparr>" ex_closed_ticket
        "[TicketStatusUpdateEmail id_ticket [''bob@example.org'', ''alice@example.org'']]" ex_ticket]
  from inst upd have a: "t_status ex_closed_ticket \<noteq> t_status ex_ticket"
    by auto
  from inst upd have all: "\<forall>i rs.
      TicketStatusUpdateEmail i rs \<in>
        set [TicketStatusUpdateEmail id_ticket [''bob@example.org'', ''alice@example.org'']] \<longrightarrow>
      i = id_ticket \<and> distinct rs \<and>
      set rs =
        {u_email u |u. populateUser (ex_store\<lparr>tickets := [ex_closed_ticket, ex_open_ticket]\<rparr>)
                          (t_assignedTo ex_closed_ticket) = Some u} \<union>
        {u_email u |u. populateUser (ex_store\<lparr>tickets := [ex_closed_ticket, ex_open_ticket]\<rparr>)
                          (Some (t_createdBy ex_closed_ticket)) = Some u}"
    by blast
  have "TicketStatusUpdateEmail id_ticket [''bob@example.org'', ''alice@example.org''] \<in>
        set [TicketStatusUpdateEmail id_ticket [''bob@example.org'', ''alice@example.org'']]"
    by simp
  with all have b: "distinct [''bob@example.org'', ''alice@example.org''] \<and>
   set [''bob@example.org'', ''alice@example.org''] =
     {u_email u |u. populateUser (ex_store\<lparr>tickets := [ex_closed_ticket, ex_open_ticket]\<rparr>)
                       (t_assignedTo ex_closed_ticket) = Some u} \<union>
     {u_email u |u. populateUser (ex_store\<lparr>tickets := [ex_closed_ticket, ex_open_ticket]\<rparr>)
                       (Some (t_createdBy ex_closed_ticket)) = Some u}"
    by blast
  from upd have c: "snd (updateTicket ex_rendering 7 ex_alice id_ticket ex_close ex_store) =
     Inr (ex_closed_ticket,
          [TicketStatusUpdateEmail id_ticket [''bob@example.org'', ''alice@example.org'']])"
    by simp
  from a b c show ?thesis by blast
qed

text \<open>
  C5. The claim asks for an assignment notification only when the assignee changes and is
  not the acting user. \<open>assignTicket\<close> reads \<open>previousAssignee\<close> and never compares it:
  it notifies whenever the assignee is not the acting user. The resolved ticket is assigned
  to Bob; Alice assigns it to Bob again; the stored ticket is the same and an assignment
  notification to Bob is requested.
\<close>

theorem assignTicket_renotifies_current_assignee:
  "t_assignedTo ex_ticket = Some id_bob \<and> u_id ex_alice \<noteq> id_bob \<and>
   assignTicket 9 ex_alice id_ticket (toHexString id_bob) ex_store =
     (ex_store, Inr (ex_ticket, [TicketAssignmentEmail id_ticket ''bob@example.org'']))"
  by (simp add: assignTicket_def eval_defs ex_defs)

section \<open>Deleting projects and users, and self-targeted administration\<close>

lemma find_None_iff_set: "(find P xs = None) = (\<forall>x \<in> set xs. \<not> P x)"
  by (induction xs) auto

lemma find_Some_set: "find P xs = Some x \<Longrightarrow> x \<in> set xs \<and> P x"
  by (induction xs) (auto split: if_splits)

text \<open>
  C4 as stated fails where a guard of the controller stops the delete first: not every
  delete of a referenced project or user succeeds. The administrator created the project
  and deletes the own account: the self-deletion guard rejects the request and the record
  stays active. The project has tickets and is archived already: \<open>deleteProject\<close>
  looks up active projects only and answers that the project is not found.
\<close>

theorem delete_of_referenced_record_rejected_counterexample:
  "projects ex_store = [ex_project] \<and> p_createdBy ex_project = u_id ex_admin \<and>
   deleteUser ex_admin (u_id ex_admin) ex_store =
     (ex_store, Inl (ApiError ''Cannot delete your own account'' 400)) \<and>
   fst (deleteProject id_project ex_store) = ex_archived_store \<and>
   tickets ex_archived_store = [ex_ticket, ex_open_ticket] \<and> t_project ex_ticket = id_project \<and>
   deleteProject id_project ex_archived_store =
     (ex_archived_store, Inl (ApiError ''Project not found'' 404))"
  by (simp add: deleteUser_def deleteProject_def ex_archived_store_def eval_defs ex_defs)

text \<open>
  C4, as amended. Deleting a project that is stored and active succeeds: when a ticket
  references it, the project stays stored with \<open>isActive = false\<close> and
  \<open>status = ARCHIVED\<close>; when no ticket references it, it is removed. Deleting a stored
  user other than the acting user succeeds: when the user created a project, or created or
  is assigned a ticket, the user stays stored with \<open>isActive = false\<close>; otherwise the user
  is removed.
\<close>

theorem delete_degrades_to_soft_delete:
  "(find (\<lambda>p. p_id p = projectId \<and> p_isActive p) (projects s) = Some p \<longrightarrow>
      (if \<exists>t \<in> set (tickets s). t_project t = projectId
       then snd (deleteProject projectId s) =
              Inr (Archived (p\<lparr>p_isActive := False, p_status := ARCHIVED\<rparr>)) \<and>
            findById p_id projectId (projects (fst (deleteProject projectId s))) =
              Some (p\<lparr>p_isActive := False, p_status := ARCHIVED\<rparr>)
       else snd (deleteProject projectId s) = Inr Deleted \<and>
            findById p_id projectId (projects (fst (deleteProject projectId s))) = None)) \<and>
   (findById u_id userId (users s) = Some u \<and> u_id reqUser \<noteq> userId \<longrightarrow>
      (if (\<exists>p \<in> set (projects s). p_createdBy p = userId) \<or>
          (\<exists>t \<in> set (tickets s). t_createdBy t = userId \<or> t_assignedTo t = Some userId)
       then snd (deleteUser reqUser userId s) = Inr (Deactivated (u\<lparr>u_isActive := False\<rparr>)) \<and>
            findById u_id userId (users (fst (deleteUser reqUser userId s))) =
              Some (u\<lparr>u_isActive := False\<rparr>)
       else snd (deleteUser reqUser userId s) = Inr Deleted \<and>
            findById u_id userId (users (fst (deleteUser reqUser userId s))) = None))"
proof (intro conjI impI)
  assume h: "find (\<lambda>p. p_id p = projectId \<and> p_isActive p) (projects s) = Some p"
  then have mem: "p \<in> set (projects s)" "p_id p = projectId"
    using find_Some_set [of "\<lambda>p. p_id p = projectId \<and> p_isActive p" "projects s" p] by simp_all
  show "if \<exists>t \<in> set (tickets s). t_project t = projectId
       then snd (deleteProject projectId s) =
              Inr (Archived (p\<lparr>p_isActive := False, p_status := ARCHIVED\<rparr>)) \<and>
            findById p_id projectId (projects (fst (deleteProject projectId s))) =
              Some (p\<lparr>p_isActive := False, p_status := ARCHIVED\<rparr>)
       else snd (deleteProject projectId s) = Inr Deleted \<and>
            findById p_id projectId (projects (fst (deleteProject projectId s))) = None"
  proof (cases "find (\<lambda>t. t_project t = projectId) (tickets s)")
    case None
    then have "\<not> (\<exists>t \<in> set (tickets s). t_project t = projectId)"
      by (simp add: find_None_iff_set)
    with h None show ?thesis
      by (simp add: deleteProject_def findById_deleted)
  next
    case (Some hasTickets)
    then have "\<exists>t \<in> set (tickets s). t_project t = projectId"
      using find_Some_set [of "\<lambda>t. t_project t = projectId" "tickets s" hasTickets] by auto
    with h Some mem show ?thesis
      by (simp add: deleteProject_def Let_def findById_saveDoc)
  qed
next
  assume h: "findById u_id userId (users s) = Some u \<and> u_id reqUser \<noteq> userId"
  with findById_key [of u_id userId "users s" u]
  have mem: "u \<in> set (users s)" "u_id u = userId" by simp_all
  from h have ne: "userId \<noteq> u_id reqUser" by auto
  let ?ref = "(\<exists>p \<in> set (projects s). p_createdBy p = userId) \<or>
          (\<exists>t \<in> set (tickets s). t_createdBy t = userId \<or> t_assignedTo t = Some userId)"
  have ref: "(find (\<lambda>p. p_createdBy p = userId) (projects s) \<noteq> None \<or>
              find (\<lambda>t. t_createdBy t = userId \<or> t_assignedTo t = Some userId) (tickets s) \<noteq> None)
             = ?ref"
    by (simp add: find_None_iff_set)
  show "if ?ref
       then snd (deleteUser reqUser userId s) = Inr (Deactivated (u\<lparr>u_isActive := False\<rparr>)) \<and>
            findById u_id userId (users (fst (deleteUser reqUser userId s))) =
              Some (u\<lparr>u_isActive := False\<rparr>)
       else snd (deleteUser reqUser userId s) = Inr Deleted \<and>
            findById u_id userId (users (fst (deleteUser reqUser userId s))) = None"
  proof (cases ?ref)
    case True
    with h mem ne ref show ?thesis
      by (simp add: deleteUser_def Let_def findById_saveDoc)
  next
    case False
    with h mem ne ref show ?thesis
      by (simp add: deleteUser_def Let_def findById_deleted)
  qed
qed

theorem delete_degrades_to_soft_delete_witness:
  "snd (deleteProject id_project ex_store) =
     Inr (Archived (ex_project\<lparr>p_isActive := False, p_status := ARCHIVED\<rparr>)) \<and>
   findById p_id id_project (projects (fst (deleteProject id_project ex_store))) =
     Some (ex_project\<lparr>p_isActive := False, p_status := ARCHIVED\<rparr>) \<and>
   snd (deleteProject id_project (ex_store\<lparr>tickets := []\<rparr>)) = Inr Deleted \<and>
   findById p_id id_project (projects (fst (deleteProject id_project (ex_store\<lparr>tickets := []\<rparr>)))) = None \<and>
   snd (deleteUser ex_admin id_bob ex_store) = Inr (Deactivated (ex_bob\<lparr>u_isActive := False\<rparr>)) \<and>
   findById u_id id_bob (users (fst (deleteUser ex_admin id_bob ex_store))) =
     Some (ex_bob\<lparr>u_isActive := False\<rparr>) \<and>
   snd (deleteUser ex_admin id_dave ex_store) = Inr Deleted \<and>
   findById u_id id_dave (users (fst (deleteUser ex_admin id_dave ex_store))) = None"
proof -
  have p1: "find (\<lambda>p. p_id p = id_project \<and> p_isActive p) (projects ex_store) = Some ex_project"
    and p2: "find (\<lambda>p. p_id p = id_project \<and> p_isActive p) (projects (ex_store\<lparr>tickets := []\<rparr>)) =
      Some ex_project"
    by (simp_all add: ex_defs)
  have r1: "\<exists>t \<in> set (tickets ex_store). t_project t = id_project"
    and r2: "\<not> (\<exists>t \<in> set (tickets (ex_store\<lparr>tickets := []\<rparr>)). t_project t = id_project)"
    by (simp_all add: ex_defs)
  have u1: "findById u_id id_bob (users ex_store) = Some ex_bob \<and> u_id ex_admin \<noteq> id_bob"
    and u2: "findById u_id id_dave (users ex_store) = Some ex_dave \<and> u_id ex_admin \<noteq> id_dave"
    by (simp_all add: findById_def ex_defs)
  have r3: "(\<exists>p \<in> set (projects ex_store). p_createdBy p = id_bob) \<or>
      (\<exists>t \<in> set (tickets ex_store). t_createdBy t = id_bob \<or> t_assignedTo t = Some id_bob)"
    and r4: "\<not> ((\<exists>p \<in> set (projects ex_store). p_createdBy p = id_dave) \<or>
      (\<exists>t \<in> set (tickets ex_store). t_createdBy t = id_dave \<or> t_assignedTo t = Some id_dave))"
    by (simp_all add: ex_defs)
  from delete_degrades_to_soft_delete [of id_project ex_store ex_project id_bob ex_bob ex_admin] p1 r1 u1 r3
  have a: "snd (deleteProject id_project ex_store) =
     Inr (Archived (ex_project\<lparr>p_isActive := False, p_status := ARCHIVED\<rparr>)) \<and>
   findById p_id id_project (projects (fst (deleteProject id_project ex_store))) =
     Some (ex_project\<lparr>p_isActive := False, p_status := ARCHIVED\<rparr>) \<and>
   snd (deleteUser ex_admin id_bob ex_store) = Inr (Deactivated (ex_bob\<lparr>u_isActive := False\<rparr>)) \<and>
   findById u_id id_bob (users (fst (deleteUser ex_admin id_bob ex_store))) =
     Some (ex_bob\<lparr>u_isActive := False\<rparr>)"
    by simp
  from delete_degrades_to_soft_delete
    [of id_project "ex_store\<lparr>tickets := []\<rparr>" ex_project id_dave ex_dave ex_admin] p2 r2
  have b: "snd (deleteProject id_project (ex_store\<lparr>tickets := []\<rparr>)) = Inr Deleted \<and>
   findById p_id id_project (projects (fst (deleteProject id_project (ex_store\<lparr>tickets := []\<rparr>)))) = None"
    by simp
  from delete_degrades_to_soft_delete [of id_project ex_store ex_project id_dave ex_dave ex_admin] u2 r4
  have c: "snd (deleteUser ex_admin id_dave ex_store) = Inr Deleted \<and>
   findById u_id id_dave (users (fst (deleteUser ex_admin id_dave ex_store))) = None"
    by simp
  from a b c show ?thesis by blast
qed

text \<open>
  C7 as stated fails on the kind of the error. The claim names it Forbidden; the three
  guards throw \<open>ApiError(..., 400)\<close>, where access denial throws 403. The administrator
  changes the own role.
\<close>

theorem self_role_change_not_forbidden_counterexample:
  "updateUserRole ex_admin id_ada ''USER'' ex_store =
     (ex_store, Inl (ApiError ''Cannot modify your own role'' 400)) \<and>
   \<not> is_forbidden (ApiError ''Cannot modify your own role'' 400)"
  by (simp add: updateUserRole_def is_forbidden_def eval_defs ex_defs)

text \<open>
  C7, as amended. When the acting user targets the own stored record, the change of role,
  the change of active status and the deletion are each rejected with an error of status
  400 (not 403), whatever the role of the acting user, and the store, with the user's record
  in it, is as before.
\<close>

theorem self_target_rejected:
  "findById u_id (u_id reqUser) (users s) = Some u \<longrightarrow>
     fst (updateUserRole reqUser (u_id reqUser) role s) = s \<and>
     (\<exists>e. snd (updateUserRole reqUser (u_id reqUser) role s) = Inl e \<and>
          statusCode e = 400 \<and> \<not> is_forbidden e) \<and>
     updateUserStatus reqUser (u_id reqUser) isActive s =
       (s, Inl (ApiError ''Cannot modify your own status'' 400)) \<and>
     deleteUser reqUser (u_id reqUser) s =
       (s, Inl (ApiError ''Cannot delete your own account'' 400))"
proof
  assume h: "findById u_id (u_id reqUser) (users s) = Some u"
  with findById_key [of u_id "u_id reqUser" "users s" u] have id: "u_id u = u_id reqUser"
    by simp
  from h id show "fst (updateUserRole reqUser (u_id reqUser) role s) = s \<and>
     (\<exists>e. snd (updateUserRole reqUser (u_id reqUser) role s) = Inl e \<and>
          statusCode e = 400 \<and> \<not> is_forbidden e) \<and>
     updateUserStatus reqUser (u_id reqUser) isActive s =
       (s, Inl (ApiError ''Cannot modify your own status'' 400)) \<and>
     deleteUser reqUser (u_id reqUser) s =
       (s, Inl (ApiError ''Cannot delete your own account'' 400))"
    by (cases "parse_user_role role")
       (simp_all add: updateUserRole_def updateUserStatus_def deleteUser_def is_forbidden_def
          del: parse_user_role.simps)
qed

theorem self_target_rejected_witness:
  "fst (updateUserRole ex_admin (u_id ex_admin) ''USER'' ex_store) = ex_store \<and>
   updateUserStatus ex_admin (u_id ex_admin) False ex_store =
     (ex_store, Inl (ApiError ''Cannot modify your own status'' 400)) \<and>
   deleteUser ex_admin (u_id ex_admin) ex_store =
     (ex_store, Inl (ApiError ''Cannot delete your own account'' 400))"
proof -
  have h: "findById u_id (u_id ex_admin) (users ex_store) = Some ex_admin"
    by (simp add: findById_def ex_defs)
  from self_target_rejected [of ex_admin ex_store ex_admin "''USER''" False] h
  show ?thesis by blast
qed

section \<open>Rule violations and writes\<close>

text \<open>
  C8. The claim has every rule violation, a duplicate member among them, answered with an
  error and no write. \<open>addProjectMember\<close> looks the user up with a query, which casts the
  \<open>userId\<close> of the body, and then tests for an existing member by comparing each member's
  id string with the body's string as it came. Alice is a member of the project; the
  administrator adds her with her id spelled in upper case: the user is found, the member
  test misses, and the project is saved with Alice in its member list twice. With the id
  spelled in lower case the same request is rejected as a duplicate.
\<close>

theorem addProjectMember_adds_member_twice:
  "map m_user (p_members ex_project) = [id_alice, id_bob, id_dave] \<and>
   castObjectId alice_upper_case = Some id_alice \<and>
   addProjectMember 9 ex_admin id_project alice_upper_case None ex_store =
     (ex_store\<lparr>projects := [ex_project_alice_twice]\<rparr>,
      Inr (ex_project_alice_twice,
           [ProjectInvitationEmail id_project ''alice@example.org''])) \<and>
   map m_user (p_members ex_project_alice_twice) = [id_alice, id_bob, id_dave, id_alice] \<and>
   addProjectMember 9 ex_admin id_project (toHexString id_alice) None ex_store =
     (ex_store, Inl (ApiError ''User is already a member of this project'' 400))"
  by (simp add: addProjectMember_def alice_upper_case_def ex_project_alice_twice_def
        eval_defs ex_defs)

end
